theory Spec2Isabelle
  imports Complex_Main
begin

section \<open>Python text\<close>

text \<open>
  A Python \<open>str\<close> is a sequence of Unicode code points, and \<open>len\<close> counts code points.
  A text is therefore a list of code points; \<open>str\<close> writes an ASCII literal of the source
  as such a list.
\<close>

type_synonym pystr = "nat list"

definition str :: "string \<Rightarrow> pystr" where
  "str s = map of_char s"

text \<open>
  \<open>str.isspace\<close> for one code point: the characters Python treats as whitespace, which
  are also the ones \<open>str.strip()\<close> and \<open>str.split()\<close> without argument remove.
\<close>

definition isspace :: "nat \<Rightarrow> bool" where
  "isspace c \<longleftrightarrow>
     (9 \<le> c \<and> c \<le> 13) \<or> (28 \<le> c \<and> c \<le> 32) \<or> c = 133 \<or> c = 160 \<or> c = 5760 \<or>
     (8192 \<le> c \<and> c \<le> 8202) \<or> c = 8232 \<or> c = 8233 \<or> c = 8239 \<or> c = 8287 \<or> c = 12288"

definition strip :: "pystr \<Rightarrow> pystr" where
  "strip s = rev (dropWhile isspace (rev (dropWhile isspace s)))"

text \<open>\<open>s.encode('utf-8')\<close> raises UnicodeEncodeError exactly on a lone surrogate.\<close>

definition utf8_encodable :: "pystr \<Rightarrow> bool" where
  "utf8_encodable s \<longleftrightarrow> list_all (\<lambda>c. \<not> (55296 \<le> c \<and> c \<le> 57343)) s"

text \<open>\<open>sub in s\<close> on strings: \<open>sub\<close> occurs in \<open>s\<close> as a contiguous run.\<close>

fun startswith :: "pystr \<Rightarrow> pystr \<Rightarrow> bool" where
  "startswith s [] = True"
| "startswith [] (p # ps) = False"
| "startswith (c # cs) (p # ps) = (c = p \<and> startswith cs ps)"

fun contains :: "pystr \<Rightarrow> pystr \<Rightarrow> bool" where
  "contains sub [] = (sub = [])"
| "contains sub (c # cs) = (startswith (c # cs) sub \<or> contains sub cs)"

text \<open>A dictionary read with a default, \<open>d.get(k, default)\<close>, on an insertion-ordered table.\<close>

definition dict_get :: "('k \<times> 'v) list \<Rightarrow> 'k \<Rightarrow> 'v \<Rightarrow> 'v" where
  "dict_get d k dflt = (case map_of d k of Some v \<Rightarrow> v | None \<Rightarrow> dflt)"


section \<open>fixed_content_policy.py: the adaptive content policy\<close>

subsection \<open>Configuration\<close>

text \<open>
  Thresholds and scores are Python floats. They are only compared, clamped and stored, so
  they are modelled by the reals they denote: rounding a decimal literal to the nearest
  double is monotone and the literals of the table round to distinct doubles, hence the
  order of the table entries is the order of the decimals.
\<close>

definition safe_policy :: "(pystr \<times> real) list" where
  "safe_policy =
    [(str ''violence'', 1/10), (str ''adult'', 0), (str ''hate_speech'', 0),
     (str ''illegal'', 0), (str ''medical'', 3/10), (str ''political'', 2/10),
     (str ''controversial'', 2/10), (str ''educational'', 1), (str ''technical'', 1),
     (str ''creative'', 8/10)]"

definition educational_policy :: "(pystr \<times> real) list" where
  "educational_policy =
    [(str ''violence'', 3/10), (str ''adult'', 1/10), (str ''hate_speech'', 1/10),
     (str ''illegal'', 2/10), (str ''medical'', 8/10), (str ''political'', 7/10),
     (str ''controversial'', 6/10), (str ''educational'', 1), (str ''technical'', 1),
     (str ''creative'', 1)]"

definition research_policy :: "(pystr \<times> real) list" where
  "research_policy =
    [(str ''violence'', 6/10), (str ''adult'', 4/10), (str ''hate_speech'', 3/10),
     (str ''illegal'', 5/10), (str ''medical'', 1), (str ''political'', 1),
     (str ''controversial'', 9/10), (str ''educational'', 1), (str ''technical'', 1),
     (str ''creative'', 1)]"

definition unrestricted_policy :: "(pystr \<times> real) list" where
  "unrestricted_policy =
    [(str ''violence'', 8/10), (str ''adult'', 7/10), (str ''hate_speech'', 5/10),
     (str ''illegal'', 3/10), (str ''medical'', 1), (str ''political'', 1),
     (str ''controversial'', 1), (str ''educational'', 1), (str ''technical'', 1),
     (str ''creative'', 1)]"

definition policies :: "(pystr \<times> (pystr \<times> real) list) list" where
  "policies =
    [(str ''safe'', safe_policy), (str ''educational'', educational_policy),
     (str ''research'', research_policy), (str ''unrestricted'', unrestricted_policy)]"

text \<open>The local table \<open>level_hierarchy\<close> of \<open>verify_authorization\<close>.\<close>

definition level_hierarchy :: "(pystr \<times> nat) list" where
  "level_hierarchy =
    [(str ''safe'', 0), (str ''educational'', 1), (str ''research'', 2),
     (str ''unrestricted'', 3)]"

text \<open>The keys of the \<open>detectors\<close> dictionary of \<open>evaluate_content\<close>, in its order.\<close>

definition detector_names :: "pystr list" where
  "detector_names =
    [str ''violence'', str ''adult'', str ''hate_speech'', str ''illegal'', str ''medical'',
     str ''political'', str ''controversial'', str ''educational'', str ''technical'',
     str ''creative'']"

text \<open>The four level names, the keys of \<open>level_hierarchy\<close>.\<close>

definition level_names :: "pystr list" where
  "level_names = map fst level_hierarchy"

text \<open>\<open>policies[level][category]\<close>, where both keys exist.\<close>

definition threshold_of :: "pystr \<Rightarrow> pystr \<Rightarrow> real option" where
  "threshold_of lvl category =
     (case map_of policies lvl of None \<Rightarrow> None | Some policy \<Rightarrow> map_of policy category)"

subsection \<open>State\<close>

text \<open>
  \<open>datetime\<close> values are counted in microseconds, the resolution of \<open>datetime\<close> and
  \<open>timedelta\<close>, so they are integers and compare exactly.
\<close>

record session =
  user_id :: pystr
  level :: pystr
  expiry :: int

text \<open>
  The class \<open>ContentLevel\<close>. The module defines it as an \<open>Enum\<close> whenever \<open>enum\<close> can be
  imported, which it can in every Python 3; the plain class of the other branch is never
  defined. The attribute \<open>current_level\<close> holds the member \<open>ContentLevel.SAFE\<close> from
  \<open>__init__\<close> until \<open>set_policy_level\<close> stores the string it is given. The two are
  different values: a member of an \<open>Enum\<close> is equal to no string, hashes apart from the
  keys of \<open>policies\<close>, and is not a value \<open>sqlite3\<close> can bind to a parameter.
\<close>

datatype ContentLevel = SAFE | EDUCATIONAL | RESEARCH | UNRESTRICTED

datatype level_attr = Level_member ContentLevel | Level_name pystr

record override_info =
  ov_expiry :: int
  ov_reason :: pystr
  ov_created_by :: pystr

text \<open>
  The strings put into \<open>violations\<close> and \<open>block_reason\<close>. A threshold violation is the
  f-string \<open>"{category}: {score:.2f} > {threshold:.2f}"\<close>; it is kept as its three
  arguments.
\<close>

datatype violation = Exceeds pystr real real | Empty_content | Evaluation_error

datatype block_reason =
  Joined "violation list" | Empty_or_invalid_content | System_error_during_evaluation

record evaluation_result =
  allowed :: bool
  policy_level :: level_attr
  category_scores :: "(pystr \<times> real) list"
  violations :: "violation list"
  override_applied :: bool
  content_hash :: pystr
  evaluation_time :: int
  block_reason :: "block_reason option"

text \<open>A row of the table \<open>content_evaluations\<close>.\<close>

record evaluation_record =
  row_content_hash :: pystr
  row_policy_level :: pystr
  row_category_scores :: "(pystr \<times> real) list"
  row_final_decision :: bool
  row_block_reason :: "block_reason option"
  row_user_context :: "pystr option"
  row_override_applied :: bool

text \<open>
  The engine: the attributes of \<open>AdaptiveContentPolicy\<close> that its methods change, and
  the table \<open>content_evaluations\<close> of its database. \<open>temporary_overrides\<close> is an
  insertion-ordered dictionary, iterated in that order. \<open>current_level\<close> starts as the
  member \<open>ContentLevel.SAFE\<close>.
\<close>

record policy_state =
  current_level :: level_attr
  session_tokens :: "pystr \<rightharpoonup> session"
  temporary_overrides :: "(pystr \<times> override_info) list"
  content_evaluations :: "evaluation_record list"

definition init_policy_state :: policy_state where
  "init_policy_state =
     \<lparr>current_level = Level_member SAFE, session_tokens = Map.empty,
      temporary_overrides = [], content_evaluations = []\<rparr>"

subsection \<open>What the engine reads from outside\<close>

text \<open>
  The library calls whose results the engine only branches on are inputs of the model:
  \<^item> \<open>detector c content\<close> is what the detector registered for category \<open>c\<close> returns on
    \<open>content\<close>, \<open>None\<close> when it raises. The detectors add keyword counts in binary
    floating point; every statement below holds for whatever value they return.
  \<^item> \<open>re_search pattern content\<close> is \<open>re.search(pattern, content, re.IGNORECASE)\<close> as a
    truth value, \<open>None\<close> when the pattern does not compile (\<open>re.error\<close>).
  \<^item> \<open>md5_hexdigest\<close> and \<open>sha256_digest\<close> are the digests of the UTF-8 encoding of a
    text, the latter as a number below \<open>2 ^ 256\<close>.
  \<^item> \<open>isoformat\<close> renders a \<open>datetime\<close>.
  \<^item> \<open>db_insert_ok\<close> says whether the INSERT of this call into the SQLite file succeeds.
  Each call reads the clock once, as \<open>now\<close>.
\<close>

record policy_env =
  detector :: "pystr \<Rightarrow> pystr \<Rightarrow> real option"
  re_search :: "pystr \<Rightarrow> pystr \<Rightarrow> bool option"
  md5_hexdigest :: "pystr \<Rightarrow> pystr"
  sha256_digest :: "pystr \<Rightarrow> nat"
  isoformat :: "int \<Rightarrow> pystr"
  db_insert_ok :: bool

text \<open>\<open>hexdigest()\<close>: the \<open>n\<close> lower-case hexadecimal digits of a digest.\<close>

definition hex_digit :: "nat \<Rightarrow> nat" where
  "hex_digit d = (if d < 10 then 48 + d else 87 + d)"

definition hexdigest :: "nat \<Rightarrow> nat \<Rightarrow> pystr" where
  "hexdigest n v = map (\<lambda>i. hex_digit ((v div 16 ^ (n - 1 - i)) mod 16)) [0..<n]"

text \<open>
  \<open>datetime.now() + timedelta(hours=h)\<close> in microseconds; it raises OverflowError when
  the sum leaves the range of \<open>datetime\<close> (a \<open>timedelta\<close> out of its own range, which
  is wider, leaves it too).
\<close>

definition datetime_min :: int where "datetime_min = - 62135596800000000"
definition datetime_max :: int where "datetime_max = 253402300799999999"

definition add_hours :: "int \<Rightarrow> int \<Rightarrow> int option" where
  "add_hours now h =
     (let delta = h * 3600000000 in
      if now + delta < datetime_min \<or> now + delta > datetime_max then None
      else Some (now + delta))"

subsection \<open>Authorization\<close>

text \<open>
  \<open>generate_auth_token(user_id, level, duration_hours)\<close>: the token is the first 32
  hexadecimal digits of a SHA-256 digest. Any exception (a text that cannot be encoded,
  an expiry out of range) returns the empty token and stores nothing.
\<close>

definition generate_auth_token ::
  "policy_env \<Rightarrow> int \<Rightarrow> pystr \<Rightarrow> pystr \<Rightarrow> int \<Rightarrow> policy_state \<Rightarrow> pystr \<times> policy_state" where
  "generate_auth_token E now uid lvl duration_hours s =
     (let token_data = uid @ str '':'' @ lvl @ str '':'' @ isoformat E now in
      if \<not> utf8_encodable token_data then ([], s)
      else let token = take 32 (hexdigest 64 (sha256_digest E token_data)) in
        case add_hours now duration_hours of
          None \<Rightarrow> ([], s)
        | Some e \<Rightarrow>
            (token, s\<lparr>session_tokens :=
               (session_tokens s)(token \<mapsto> \<lparr>user_id = uid, level = lvl, expiry = e\<rparr>)\<rparr>))"

text \<open>
  \<open>verify_authorization(token, required_level)\<close> at clock reading \<open>now\<close>. A token that
  is \<open>None\<close> or empty is refused before the table is read. With string levels nothing in
  the \<open>try\<close> block raises.
\<close>

definition verify_authorization ::
  "int \<Rightarrow> pystr \<Rightarrow> pystr \<Rightarrow> policy_state \<Rightarrow> bool \<times> policy_state" where
  "verify_authorization now token required_level s =
     (if token = [] then (False, s)
      else case session_tokens s token of
        None \<Rightarrow> (False, s)
      | Some sess \<Rightarrow>
          if now > expiry sess
          then (False, s\<lparr>session_tokens := (session_tokens s)(token := None)\<rparr>)
          else (dict_get level_hierarchy (level sess) 0
                  \<ge> dict_get level_hierarchy required_level 0, s))"

text \<open>A run of verification calls, each with its own clock reading, token and level.\<close>

fun verify_all ::
  "(int \<times> pystr \<times> pystr) list \<Rightarrow> policy_state \<Rightarrow> bool list \<times> policy_state" where
  "verify_all [] s = ([], s)"
| "verify_all ((now, token, required_level) # calls) s =
     (let (r, s') = verify_authorization now token required_level s;
          (rs, s'') = verify_all calls s'
      in (r # rs, s''))"

text \<open>
  \<open>set_policy_level(level, auth_token, reason)\<close>. It stores the string \<open>level\<close>, a key
  of \<open>policies\<close>. The row written to \<open>policy_changes\<close> is best effort and left out: no
  statement below reads that table.
\<close>

definition set_policy_level ::
  "int \<Rightarrow> pystr \<Rightarrow> pystr \<Rightarrow> policy_state \<Rightarrow> bool \<times> policy_state" where
  "set_policy_level now lvl auth_token s =
     (if lvl \<notin> set (map fst policies) then (False, s)
      else if lvl \<in> set [str ''research'', str ''unrestricted'']
      then (case verify_authorization now auth_token lvl s of
              (False, s') \<Rightarrow> (False, s')
            | (True, s') \<Rightarrow> (True, s'\<lparr>current_level := Level_name lvl\<rparr>))
      else (True, s\<lparr>current_level := Level_name lvl\<rparr>))"

subsection \<open>Temporary overrides\<close>

text \<open>\<open>d[k] = v\<close> on an insertion-ordered dictionary: an existing key keeps its place.\<close>

definition dict_set :: "('k \<times> 'v) list \<Rightarrow> 'k \<Rightarrow> 'v \<Rightarrow> ('k \<times> 'v) list" where
  "dict_set d k v =
     (if k \<in> set (map fst d) then map (\<lambda>(k', v'). if k' = k then (k', v) else (k', v')) d
      else d @ [(k, v)])"

text \<open>
  \<open>add_temporary_override(pattern, duration_hours, reason, auth_token)\<close>. The pattern is
  stored as given, compiled or not. A failed INSERT returns \<open>False\<close> after the override is
  already in the dictionary.
\<close>

definition add_temporary_override ::
  "policy_env \<Rightarrow> int \<Rightarrow> pystr \<Rightarrow> int \<Rightarrow> pystr \<Rightarrow> pystr \<Rightarrow> policy_state
     \<Rightarrow> bool \<times> policy_state" where
  "add_temporary_override E now pattern duration_hours reason auth_token s =
     (case verify_authorization now auth_token (str ''research'') s of
        (False, s') \<Rightarrow> (False, s')
      | (True, s') \<Rightarrow>
          (case add_hours now duration_hours of
             None \<Rightarrow> (False, s')
           | Some e \<Rightarrow>
               (db_insert_ok E,
                s'\<lparr>temporary_overrides :=
                     dict_set (temporary_overrides s') pattern
                       \<lparr>ov_expiry = e, ov_reason = reason,
                        ov_created_by = take 8 auth_token\<rparr>\<rparr>)))"

text \<open>
  The loop of \<open>check_temporary_overrides\<close> over the dictionary, in its order: an expired
  pattern is noted, the first unexpired pattern that matches returns \<open>True\<close> at once, and
  an unexpired pattern that does not compile raises, which the handler turns into
  \<open>False\<close>. Only a loop that runs to its end deletes the expired patterns.
\<close>

datatype scan = Matched | Raised | Finished "pystr list"

fun scan_overrides ::
  "policy_env \<Rightarrow> int \<Rightarrow> pystr \<Rightarrow> (pystr \<times> override_info) list \<Rightarrow> pystr list \<Rightarrow> scan" where
  "scan_overrides E now content [] expired_patterns = Finished expired_patterns"
| "scan_overrides E now content ((pattern, info) # rest) expired_patterns =
     (if now > ov_expiry info
      then scan_overrides E now content rest (expired_patterns @ [pattern])
      else case re_search E pattern content of
             None \<Rightarrow> Raised
           | Some True \<Rightarrow> Matched
           | Some False \<Rightarrow> scan_overrides E now content rest expired_patterns)"

definition check_temporary_overrides ::
  "policy_env \<Rightarrow> int \<Rightarrow> pystr \<Rightarrow> policy_state \<Rightarrow> bool \<times> policy_state" where
  "check_temporary_overrides E now content s =
     (case scan_overrides E now content (temporary_overrides s) [] of
        Matched \<Rightarrow> (True, s)
      | Raised \<Rightarrow> (False, s)
      | Finished expired_patterns \<Rightarrow>
          (False, s\<lparr>temporary_overrides :=
                     filter (\<lambda>(p, info). p \<notin> set expired_patterns) (temporary_overrides s)\<rparr>))"

subsection \<open>Evaluation\<close>

text \<open>A detector's score clamped to \<open>[0, 1]\<close>; a detector that raises scores \<open>0.0\<close>.\<close>

definition category_score :: "policy_env \<Rightarrow> pystr \<Rightarrow> pystr \<Rightarrow> real" where
  "category_score E content category =
     (case detector E category content of
        Some score \<Rightarrow> min 1 (max 0 score)
      | None \<Rightarrow> 0)"

text \<open>The loop that compares each score with the threshold of the current policy.\<close>

fun check_thresholds ::
  "(pystr \<times> real) list \<Rightarrow> bool \<Rightarrow> (pystr \<times> real) list \<Rightarrow> violation list \<times> bool
     \<Rightarrow> violation list \<times> bool" where
  "check_thresholds current_policy ov [] (vs, ok) = (vs, ok)"
| "check_thresholds current_policy ov ((category, score) # rest) (vs, ok) =
     (let threshold = dict_get current_policy category 0 in
      if score > threshold \<and> \<not> ov
      then check_thresholds current_policy ov rest
             (vs @ [Exceeds category score threshold], False)
      else check_thresholds current_policy ov rest (vs, ok))"

text \<open>
  \<open>policies.get(self.current_level, self.policies["safe"])\<close>: the keys of \<open>policies\<close> are
  strings, so a member of \<open>ContentLevel\<close> is not among them and reads the default.
\<close>

definition policies_get :: "level_attr \<Rightarrow> (pystr \<times> real) list" where
  "policies_get l =
     (case l of
        Level_member m \<Rightarrow> safe_policy
      | Level_name n \<Rightarrow> dict_get policies n safe_policy)"

text \<open>
  \<open>log_content_evaluation\<close>: one row, unless the INSERT fails; the failure is logged and
  swallowed. The INSERT binds \<open>result['policy_level']\<close> to a parameter: on a member of
  \<open>ContentLevel\<close> \<open>sqlite3\<close> raises (the type is not supported), on a string the outcome
  is that of the database.
\<close>

definition log_content_evaluation ::
  "policy_env \<Rightarrow> pystr \<Rightarrow> evaluation_result \<Rightarrow> pystr option \<Rightarrow> policy_state \<Rightarrow> policy_state"
  where
  "log_content_evaluation E h result ctx s =
     (case policy_level result of
        Level_member m \<Rightarrow> s
      | Level_name n \<Rightarrow>
          if db_insert_ok E
          then s\<lparr>content_evaluations := content_evaluations s @
                  [\<lparr>row_content_hash = h, row_policy_level = n,
                    row_category_scores = category_scores result,
                    row_final_decision = allowed result,
                    row_block_reason = block_reason result,
                    row_user_context = ctx,
                    row_override_applied = override_applied result\<rparr>]\<rparr>
          else s)"

text \<open>
  \<open>evaluate_content(content, user_context)\<close>. Empty or whitespace-only content returns at
  the guard. The only statement of the outer \<open>try\<close> that raises on a text is
  \<open>content.encode('utf-8')\<close>; the handler returns the error result. Neither return
  reaches \<open>log_content_evaluation\<close>.
\<close>

definition evaluate_content ::
  "policy_env \<Rightarrow> int \<Rightarrow> pystr \<Rightarrow> pystr option \<Rightarrow> policy_state
     \<Rightarrow> evaluation_result \<times> policy_state" where
  "evaluate_content E now content ctx s =
     (if content = [] \<or> length (strip content) = 0
      then (\<lparr>allowed = False, policy_level = current_level s, category_scores = [],
              violations = [Empty_content], override_applied = False, content_hash = [],
              evaluation_time = now, block_reason = Some Empty_or_invalid_content\<rparr>, s)
      else if \<not> utf8_encodable content
      then (\<lparr>allowed = False, policy_level = current_level s, category_scores = [],
              violations = [Evaluation_error], override_applied = False, content_hash = [],
              evaluation_time = now, block_reason = Some System_error_during_evaluation\<rparr>, s)
      else
        let h = md5_hexdigest E content;
            scores = map (\<lambda>category. (category, category_score E content category))
                       detector_names;
            current_policy = policies_get (current_level s);
            (ov, s1) = check_temporary_overrides E now content s;
            (vs, ok) = check_thresholds current_policy ov scores ([], True);
            result = \<lparr>allowed = ok, policy_level = current_level s, category_scores = scores,
                      violations = vs, override_applied = ov, content_hash = h,
                      evaluation_time = now,
                      block_reason = (if ok then None else Some (Joined vs))\<rparr>
        in (result, log_content_evaluation E h result ctx s1))"


subsection \<open>Vocabulary of the statements\<close>

text \<open>The guard of \<open>evaluate_content\<close>: empty or whitespace-only content.\<close>

definition blank :: "pystr \<Rightarrow> bool" where
  "blank content \<longleftrightarrow> content = [] \<or> length (strip content) = 0"

text \<open>The threshold \<open>evaluate_content\<close> compares a category with in state \<open>s\<close>.\<close>

definition active_threshold :: "policy_state \<Rightarrow> pystr \<Rightarrow> real" where
  "active_threshold s category = dict_get (policies_get (current_level s)) category 0"

text \<open>
  The INSERT of \<open>log_content_evaluation\<close> succeeds in state \<open>s\<close>: the level is a string,
  which \<open>sqlite3\<close> binds, and the database takes the row.
\<close>

definition insert_succeeds :: "policy_env \<Rightarrow> policy_state \<Rightarrow> bool" where
  "insert_succeeds E s \<longleftrightarrow>
     (case current_level s of Level_member m \<Rightarrow> False | Level_name n \<Rightarrow> db_insert_ok E)"

text \<open>Some category scores strictly above its threshold at the active level.\<close>

definition some_score_exceeds :: "policy_env \<Rightarrow> policy_state \<Rightarrow> pystr \<Rightarrow> bool" where
  "some_score_exceeds E s content \<longleftrightarrow>
     list_ex (\<lambda>c. category_score E content c > active_threshold s c) detector_names"

text \<open>An override is unexpired while the clock has not passed its expiry.\<close>

definition unexpired :: "int \<Rightarrow> override_info \<Rightarrow> bool" where
  "unexpired now info \<longleftrightarrow> \<not> now > ov_expiry info"

text \<open>Some unexpired override pattern matches the content.\<close>

definition override_matches :: "policy_env \<Rightarrow> int \<Rightarrow> pystr \<Rightarrow> policy_state \<Rightarrow> bool" where
  "override_matches E now content s \<longleftrightarrow>
     list_ex (\<lambda>(p, info). unexpired now info \<and> re_search E p content = Some True)
       (temporary_overrides s)"

text \<open>Every unexpired override pattern compiles.\<close>

definition overrides_compile :: "policy_env \<Rightarrow> int \<Rightarrow> pystr \<Rightarrow> policy_state \<Rightarrow> bool" where
  "overrides_compile E now content s \<longleftrightarrow>
     list_all (\<lambda>(p, info). unexpired now info \<longrightarrow> re_search E p content \<noteq> None)
       (temporary_overrides s)"

text \<open>
  Every token of the session table has the 32 digits \<open>generate_auth_token\<close> gives it.
  The lemmas \<open>tokens_minted_*\<close> below show that the engine keeps its table so.
\<close>

definition tokens_minted :: "policy_state \<Rightarrow> bool" where
  "tokens_minted s \<longleftrightarrow> (\<forall>t \<in> dom (session_tokens s). length t = 32)"

subsection \<open>A concrete environment\<close>

text \<open>
  An environment for the examples. On the content \<open>"how to kill"\<close> the violence detector
  finds one keyword (0.1) and one pattern (0.5); no other detector finds anything, and
  none finds anything in the other example contents. The example patterns are a literal
  word, on which \<open>re.search\<close> is a substring test, and \<open>"("\<close>, which does not compile.
  The digests are fixed stand-ins.
\<close>

definition demo_env :: policy_env where
  "demo_env =
     \<lparr>detector = (\<lambda>category content.
         if category = str ''violence'' \<and> content = str ''how to kill''
         then Some (6/10) else Some 0),
      re_search = (\<lambda>pattern content.
         if pattern = str ''('' then None else Some (contains pattern content)),
      md5_hexdigest = (\<lambda>content. str ''0cc175b9c0f1b6a831c399e269772661''),
      sha256_digest = (\<lambda>data. 0),
      isoformat = (\<lambda>t. str ''1970-01-01T00:00:00''),
      db_insert_ok = True\<rparr>"

text \<open>An engine with one research token that expires after one hour.\<close>

definition demo_token :: pystr where
  "demo_token = fst (generate_auth_token demo_env 0 (str ''user'') (str ''research'') 1
                       init_policy_state)"

definition demo_state :: policy_state where
  "demo_state = snd (generate_auth_token demo_env 0 (str ''user'') (str ''research'') 1
                       init_policy_state)"

text \<open>That engine after \<open>set_policy_level("safe")\<close>: its level is the string \<open>"safe"\<close>.\<close>

definition safe_state :: policy_state where
  "safe_state = snd (set_policy_level 0 (str ''safe'') [] demo_state)"


text \<open>
  The same engine after the token's holder has exempted the word \<open>kill\<close> for one hour,
  and an engine whose first override, entered before that one, does not compile.
\<close>

definition override_state :: policy_state where
  "override_state =
     snd (add_temporary_override demo_env 0 (str ''kill'') 1 (str ''test'') demo_token
            demo_state)"

definition bad_override_state :: policy_state where
  "bad_override_state =
     snd (add_temporary_override demo_env 0 (str ''kill'') 1 (str ''test'') demo_token
            (snd (add_temporary_override demo_env 0 (str ''('') 1 (str ''test'') demo_token
                    demo_state)))"


section \<open>content_policy_module.py: export and import of the configuration\<close>

text \<open>
  This module keys its tables by the members of two enumerations: its own
  \<open>ContentLevel\<close>, the same four members as above, and \<open>ContentCategory\<close>. Both have a
  member \<open>EDUCATIONAL\<close>; the category is written \<open>EDUCATIONAL_CONTENT\<close> here. What
  belongs to this module carries the suffix \<open>cpm\<close> where the name is taken already.
\<close>

datatype ContentCategory =
  VIOLENCE | ADULT | HATE_SPEECH | ILLEGAL | MEDICAL | POLITICAL | CONTROVERSIAL
  | EDUCATIONAL_CONTENT | TECHNICAL | CREATIVE

text \<open>The members in the order of their definition, which is the order of the tables.\<close>

definition all_levels :: "ContentLevel list" where
  "all_levels = [SAFE, EDUCATIONAL, RESEARCH, UNRESTRICTED]"

definition all_categories :: "ContentCategory list" where
  "all_categories =
     [VIOLENCE, ADULT, HATE_SPEECH, ILLEGAL, MEDICAL, POLITICAL, CONTROVERSIAL,
      EDUCATIONAL_CONTENT, TECHNICAL, CREATIVE]"

fun level_value :: "ContentLevel \<Rightarrow> pystr" where
  "level_value SAFE = str ''safe''"
| "level_value EDUCATIONAL = str ''educational''"
| "level_value RESEARCH = str ''research''"
| "level_value UNRESTRICTED = str ''unrestricted''"

fun category_value :: "ContentCategory \<Rightarrow> pystr" where
  "category_value VIOLENCE = str ''violence''"
| "category_value ADULT = str ''adult''"
| "category_value HATE_SPEECH = str ''hate_speech''"
| "category_value ILLEGAL = str ''illegal''"
| "category_value MEDICAL = str ''medical''"
| "category_value POLITICAL = str ''political''"
| "category_value CONTROVERSIAL = str ''controversial''"
| "category_value EDUCATIONAL_CONTENT = str ''educational''"
| "category_value TECHNICAL = str ''technical''"
| "category_value CREATIVE = str ''creative''"

text \<open>\<open>ContentLevel(v)\<close> and \<open>ContentCategory(v)\<close>: the member of that value; \<open>None\<close> is ValueError.\<close>

definition ContentLevel_of :: "pystr \<Rightarrow> ContentLevel option" where
  "ContentLevel_of v = find (\<lambda>l. level_value l = v) all_levels"

definition ContentCategory_of :: "pystr \<Rightarrow> ContentCategory option" where
  "ContentCategory_of v = find (\<lambda>c. category_value c = v) all_categories"

text \<open>The table \<open>level_hierarchy\<close> of this module's \<open>verify_authorization\<close>.\<close>

fun level_rank :: "ContentLevel \<Rightarrow> nat" where
  "level_rank SAFE = 0"
| "level_rank EDUCATIONAL = 1"
| "level_rank RESEARCH = 2"
| "level_rank UNRESTRICTED = 3"

text \<open>The table \<open>policies\<close> the constructor builds.\<close>

fun initial_policies_cpm :: "ContentLevel \<Rightarrow> ContentCategory \<Rightarrow> real" where
  "initial_policies_cpm SAFE VIOLENCE = 1/10"
| "initial_policies_cpm SAFE ADULT = 0"
| "initial_policies_cpm SAFE HATE_SPEECH = 0"
| "initial_policies_cpm SAFE ILLEGAL = 0"
| "initial_policies_cpm SAFE MEDICAL = 3/10"
| "initial_policies_cpm SAFE POLITICAL = 2/10"
| "initial_policies_cpm SAFE CONTROVERSIAL = 2/10"
| "initial_policies_cpm SAFE EDUCATIONAL_CONTENT = 1"
| "initial_policies_cpm SAFE TECHNICAL = 1"
| "initial_policies_cpm SAFE CREATIVE = 8/10"
| "initial_policies_cpm EDUCATIONAL VIOLENCE = 3/10"
| "initial_policies_cpm EDUCATIONAL ADULT = 1/10"
| "initial_policies_cpm EDUCATIONAL HATE_SPEECH = 1/10"
| "initial_policies_cpm EDUCATIONAL ILLEGAL = 2/10"
| "initial_policies_cpm EDUCATIONAL MEDICAL = 8/10"
| "initial_policies_cpm EDUCATIONAL POLITICAL = 7/10"
| "initial_policies_cpm EDUCATIONAL CONTROVERSIAL = 6/10"
| "initial_policies_cpm EDUCATIONAL EDUCATIONAL_CONTENT = 1"
| "initial_policies_cpm EDUCATIONAL TECHNICAL = 1"
| "initial_policies_cpm EDUCATIONAL CREATIVE = 1"
| "initial_policies_cpm RESEARCH VIOLENCE = 6/10"
| "initial_policies_cpm RESEARCH ADULT = 4/10"
| "initial_policies_cpm RESEARCH HATE_SPEECH = 3/10"
| "initial_policies_cpm RESEARCH ILLEGAL = 5/10"
| "initial_policies_cpm RESEARCH MEDICAL = 1"
| "initial_policies_cpm RESEARCH POLITICAL = 1"
| "initial_policies_cpm RESEARCH CONTROVERSIAL = 9/10"
| "initial_policies_cpm RESEARCH EDUCATIONAL_CONTENT = 1"
| "initial_policies_cpm RESEARCH TECHNICAL = 1"
| "initial_policies_cpm RESEARCH CREATIVE = 1"
| "initial_policies_cpm UNRESTRICTED VIOLENCE = 8/10"
| "initial_policies_cpm UNRESTRICTED ADULT = 7/10"
| "initial_policies_cpm UNRESTRICTED HATE_SPEECH = 5/10"
| "initial_policies_cpm UNRESTRICTED ILLEGAL = 3/10"
| "initial_policies_cpm UNRESTRICTED MEDICAL = 1"
| "initial_policies_cpm UNRESTRICTED POLITICAL = 1"
| "initial_policies_cpm UNRESTRICTED CONTROVERSIAL = 1"
| "initial_policies_cpm UNRESTRICTED EDUCATIONAL_CONTENT = 1"
| "initial_policies_cpm UNRESTRICTED TECHNICAL = 1"
| "initial_policies_cpm UNRESTRICTED CREATIVE = 1"

subsection \<open>State\<close>

record session_cpm =
  user_id_cpm :: pystr
  level_cpm :: ContentLevel
  expiry_cpm :: int

text \<open>A row of the table \<open>policy_changes\<close>.\<close>

record policy_change_row =
  row_old_level :: pystr
  row_new_level :: pystr
  row_auth_token_hash :: "pystr option"
  row_reason :: "pystr option"

text \<open>
  The engine of this module. Its \<open>policies\<close> dictionary has every level as a key and,
  under each level, every category: the constructor builds it so, and the only
  assignment to it, in \<open>import_policy_config\<close>, is to an entry named by two members. It
  is therefore a total table, listed in the order of \<open>all_levels\<close> and
  \<open>all_categories\<close>.
\<close>

record engine_cpm =
  current_level_cpm :: ContentLevel
  session_tokens_cpm :: "pystr \<rightharpoonup> session_cpm"
  policies_cpm :: "ContentLevel \<Rightarrow> ContentCategory \<Rightarrow> real"
  temporary_overrides_cpm :: "(pystr \<times> override_info) list"
  policy_changes :: "policy_change_row list"

definition init_engine_cpm :: engine_cpm where
  "init_engine_cpm =
     \<lparr>current_level_cpm = SAFE, session_tokens_cpm = Map.empty,
      policies_cpm = initial_policies_cpm, temporary_overrides_cpm = [],
      policy_changes = []\<rparr>"

subsection \<open>Authorization and level changes\<close>

text \<open>
  \<open>generate_auth_token(user_id, level, duration_hours)\<close> of this module. Nothing is
  caught here: a text that cannot be encoded and an expiry out of range raise out of the
  call, which is \<open>None\<close>. The clock is read twice, for the token data (\<open>now1\<close>) and for
  the expiry (\<open>now2\<close>).
\<close>

definition generate_auth_token_cpm ::
  "policy_env \<Rightarrow> int \<Rightarrow> int \<Rightarrow> pystr \<Rightarrow> ContentLevel \<Rightarrow> int \<Rightarrow> engine_cpm
     \<Rightarrow> (pystr \<times> engine_cpm) option" where
  "generate_auth_token_cpm E now1 now2 uid lvl duration_hours s =
     (let token_data = uid @ str '':'' @ level_value lvl @ str '':'' @ isoformat E now1 in
      if \<not> utf8_encodable token_data then None
      else let token = take 32 (hexdigest 64 (sha256_digest E token_data)) in
        case add_hours now2 duration_hours of
          None \<Rightarrow> None
        | Some e \<Rightarrow>
            Some (token, s\<lparr>session_tokens_cpm :=
               (session_tokens_cpm s)(token \<mapsto>
                  \<lparr>user_id_cpm = uid, level_cpm = lvl, expiry_cpm = e\<rparr>)\<rparr>))"

text \<open>\<open>verify_authorization(token, required_level)\<close> at clock reading \<open>now\<close>.\<close>

definition verify_authorization_cpm ::
  "int \<Rightarrow> pystr \<Rightarrow> ContentLevel \<Rightarrow> engine_cpm \<Rightarrow> bool \<times> engine_cpm" where
  "verify_authorization_cpm now token required_level s =
     (if token = [] then (False, s)
      else case session_tokens_cpm s token of
        None \<Rightarrow> (False, s)
      | Some sess \<Rightarrow>
          if now > expiry_cpm sess
          then (False, s\<lparr>session_tokens_cpm := (session_tokens_cpm s)(token := None)\<rparr>)
          else (level_rank (level_cpm sess) \<ge> level_rank required_level, s))"

text \<open>
  \<open>log_policy_change\<close>: one row, unless hashing the token or the INSERT raises, which
  is logged and swallowed.
\<close>

definition log_policy_change ::
  "policy_env \<Rightarrow> ContentLevel \<Rightarrow> ContentLevel \<Rightarrow> pystr \<Rightarrow> pystr option \<Rightarrow> engine_cpm
     \<Rightarrow> engine_cpm" where
  "log_policy_change E old new auth_token reason s =
     (if auth_token \<noteq> [] \<and> \<not> utf8_encodable auth_token then s
      else if \<not> db_insert_ok E then s
      else s\<lparr>policy_changes := policy_changes s @
              [\<lparr>row_old_level = level_value old, row_new_level = level_value new,
                row_auth_token_hash =
                  (if auth_token \<noteq> []
                   then Some (take 16 (hexdigest 64 (sha256_digest E auth_token))) else None),
                row_reason = reason\<rparr>]\<rparr>)"

definition set_policy_level_cpm ::
  "policy_env \<Rightarrow> int \<Rightarrow> ContentLevel \<Rightarrow> pystr \<Rightarrow> pystr option \<Rightarrow> engine_cpm
     \<Rightarrow> bool \<times> engine_cpm" where
  "set_policy_level_cpm E now lvl auth_token reason s =
     (let old = current_level_cpm s in
      if lvl \<in> set [RESEARCH, UNRESTRICTED]
      then (case verify_authorization_cpm now auth_token lvl s of
              (False, s') \<Rightarrow> (False, s')
            | (True, s') \<Rightarrow>
                (True, log_policy_change E old lvl auth_token reason
                         (s'\<lparr>current_level_cpm := lvl\<rparr>)))
      else (True, log_policy_change E old lvl auth_token reason (s\<lparr>current_level_cpm := lvl\<rparr>)))"

subsection \<open>Export and import\<close>

text \<open>
  The dictionary \<open>export_policy_config\<close> returns and \<open>import_policy_config\<close> reads. The
  import asks whether the keys \<open>"current_level"\<close> and \<open>"policies"\<close> are there, so both
  are optional.
\<close>

record policy_config =
  cfg_current_level :: "pystr option"
  cfg_policies :: "(pystr \<times> (pystr \<times> real) list) list option"
  cfg_active_overrides :: "(pystr \<times> pystr \<times> pystr) list"
  cfg_export_time :: pystr

definition export_policy_config :: "policy_env \<Rightarrow> int \<Rightarrow> engine_cpm \<Rightarrow> policy_config" where
  "export_policy_config E now s =
     \<lparr>cfg_current_level = Some (level_value (current_level_cpm s)),
      cfg_policies =
        Some (map (\<lambda>l. (level_value l,
                         map (\<lambda>c. (category_value c, policies_cpm s l c)) all_categories))
                all_levels),
      cfg_active_overrides =
        map (\<lambda>(pattern, info). (pattern, isoformat E (ov_expiry info), ov_reason info))
          (temporary_overrides_cpm s),
      cfg_export_time = isoformat E now\<rparr>"

text \<open>
  The two loops of the import over the \<open>"policies"\<close> entry. A name that is no member
  raises ValueError: the import stops and returns \<open>False\<close>, and the thresholds assigned
  before stay assigned.
\<close>

fun import_policy ::
  "ContentLevel \<Rightarrow> (pystr \<times> real) list \<Rightarrow> (ContentLevel \<Rightarrow> ContentCategory \<Rightarrow> real)
     \<Rightarrow> bool \<times> (ContentLevel \<Rightarrow> ContentCategory \<Rightarrow> real)" where
  "import_policy l [] table = (True, table)"
| "import_policy l ((category_str, threshold) # rest) table =
     (case ContentCategory_of category_str of
        None \<Rightarrow> (False, table)
      | Some c \<Rightarrow> import_policy l rest (table(l := (table l)(c := threshold))))"

fun import_policies ::
  "(pystr \<times> (pystr \<times> real) list) list \<Rightarrow> (ContentLevel \<Rightarrow> ContentCategory \<Rightarrow> real)
     \<Rightarrow> bool \<times> (ContentLevel \<Rightarrow> ContentCategory \<Rightarrow> real)" where
  "import_policies [] table = (True, table)"
| "import_policies ((level_str, policy_config) # rest) table =
     (case ContentLevel_of level_str of
        None \<Rightarrow> (False, table)
      | Some l \<Rightarrow>
          (case import_policy l policy_config table of
             (False, table') \<Rightarrow> (False, table')
           | (True, table') \<Rightarrow> import_policies rest table'))"

text \<open>
  \<open>import_policy_config(config, auth_token)\<close>. It verifies the token up to three times,
  each time at its own clock reading: at Research level on entry (\<open>now1\<close>), inside
  \<open>set_policy_level\<close> when the imported level is Research or Unrestricted (\<open>now2\<close>), and
  at Unrestricted level before the thresholds are written (\<open>now3\<close>).
\<close>

definition import_policy_config ::
  "policy_env \<Rightarrow> int \<Rightarrow> int \<Rightarrow> int \<Rightarrow> policy_config \<Rightarrow> pystr \<Rightarrow> engine_cpm
     \<Rightarrow> bool \<times> engine_cpm" where
  "import_policy_config E now1 now2 now3 config auth_token s =
     (case verify_authorization_cpm now1 auth_token RESEARCH s of
        (False, s1) \<Rightarrow> (False, s1)
      | (True, s1) \<Rightarrow>
          (case (case cfg_current_level config of
                   None \<Rightarrow> Some s1
                 | Some v \<Rightarrow>
                     (case ContentLevel_of v of
                        None \<Rightarrow> None
                      | Some new_level \<Rightarrow>
                          Some (snd (set_policy_level_cpm E now2 new_level auth_token
                                       (Some (str ''Config import'')) s1)))) of
             None \<Rightarrow> (False, s1)
           | Some s2 \<Rightarrow>
               (case cfg_policies config of
                  None \<Rightarrow> (True, s2)
                | Some imported \<Rightarrow>
                    (case verify_authorization_cpm now3 auth_token UNRESTRICTED s2 of
                       (False, s3) \<Rightarrow> (True, s3)
                     | (True, s3) \<Rightarrow>
                         (case import_policies imported (policies_cpm s3) of
                            (ok, table) \<Rightarrow> (ok, s3\<lparr>policies_cpm := table\<rparr>))))))"

text \<open>
  An engine of this module for which one unrestricted token has been generated at clock
  reading 0, for one hour, and that engine after the token's holder has set the level to
  Research at clock reading 1.
\<close>

definition demo_generated_cpm :: "(pystr \<times> engine_cpm) option" where
  "demo_generated_cpm =
     generate_auth_token_cpm demo_env 0 0 (str ''admin'') UNRESTRICTED 1 init_engine_cpm"

definition demo_token_cpm :: pystr where
  "demo_token_cpm = (case demo_generated_cpm of Some (token, s) \<Rightarrow> token | None \<Rightarrow> [])"

definition demo_engine_cpm :: engine_cpm where
  "demo_engine_cpm =
     (case demo_generated_cpm of Some (token, s) \<Rightarrow> s | None \<Rightarrow> init_engine_cpm)"

definition research_engine_cpm :: engine_cpm where
  "research_engine_cpm =
     snd (set_policy_level_cpm demo_env 1 RESEARCH demo_token_cpm None demo_engine_cpm)"


section \<open>fixed_web_access.py: safe web access\<close>

subsection \<open>Configuration\<close>

record domain_info =
  domain_type :: pystr
  trust :: real
  rate_limit :: nat

definition initial_trusted_domains :: "(pystr \<times> domain_info) list" where
  "initial_trusted_domains =
    [(str ''wikipedia.org'',
        \<lparr>domain_type = str ''encyclopedia'', trust = 9/10, rate_limit = 10\<rparr>),
     (str ''en.wikipedia.org'',
        \<lparr>domain_type = str ''encyclopedia'', trust = 9/10, rate_limit = 10\<rparr>),
     (str ''github.com'',
        \<lparr>domain_type = str ''code_repository'', trust = 8/10, rate_limit = 15\<rparr>),
     (str ''stackoverflow.com'',
        \<lparr>domain_type = str ''technical_qa'', trust = 8/10, rate_limit = 10\<rparr>),
     (str ''arxiv.org'',
        \<lparr>domain_type = str ''scientific'', trust = 9/10, rate_limit = 5\<rparr>),
     (str ''news.ycombinator.com'',
        \<lparr>domain_type = str ''tech_news'', trust = 7/10, rate_limit = 8\<rparr>),
     (str ''medium.com'',
        \<lparr>domain_type = str ''articles'', trust = 7/10, rate_limit = 10\<rparr>)]"

text \<open>
  \<open>blocked_domains\<close> is a Python set. It is only asked whether any member occurs in a
  host, which no iteration order changes, so a list stands for it.
\<close>

definition initial_blocked_domains :: "pystr list" where
  "initial_blocked_domains = [str ''4chan.org'', str ''8kun.top'', str ''gab.com'', str ''parler.com'']"

definition safety_filters :: "(pystr \<times> pystr list) list" where
  "safety_filters =
    [(str ''malware_keywords'',
        [str ''download crack'', str ''free hack'', str ''keygen'', str ''serial number'',
         str ''torrent download'', str ''pirated software'', str ''warez'']),
     (str ''adult_keywords'',
        [str ''explicit'', str ''nsfw'', str ''adult content'', str ''pornography'']),
     (str ''illegal_keywords'',
        [str ''how to make bomb'', str ''illegal drugs'', str ''hire hitman'',
         str ''fake documents'', str ''credit card fraud'']),
     (str ''hate_keywords'',
        [str ''hate speech'', str ''nazi'', str ''terrorist'', str ''extremist content''])]"

text \<open>
  The four regular expressions of \<open>suspicious_patterns\<close> in \<open>is_safe_query\<close>, by what
  they look for: attempts at hacking, piracy, illegal activity, dangerous instructions.
\<close>

datatype suspicious_pattern =
  Hacking_attempt | Piracy | Illegal_activity | Dangerous_instructions

definition suspicious_patterns :: "suspicious_pattern list" where
  "suspicious_patterns = [Hacking_attempt, Piracy, Illegal_activity, Dangerous_instructions]"

definition global_requests_limit :: nat where "global_requests_limit = 50"
definition global_window :: real where "global_window = 3600"
definition per_domain_requests_limit :: nat where "per_domain_requests_limit = 10"
definition per_domain_window :: real where "per_domain_window = 600"
definition cache_ttl :: real where "cache_ttl = 1800"
definition max_content_length :: nat where "max_content_length = 50000"

subsection \<open>Results and state\<close>

datatype safety_reason =
  Empty_query | Contains_category pystr | Matches_suspicious_pattern | Query_is_safe

datatype trust_reason =
  Domain_is_blocked pystr | Trusted_domain pystr | Not_in_trusted_list pystr
  | Error_parsing_domain

datatype filter_reason =
  Filter_empty_content | High_content_density pystr | Content_too_short
  | Spam_or_repetitive | Content_is_safe

datatype fetch_error =
  Invalid_URL | Domain_rate_limit_exceeded | Content_too_large | Unsupported_content_type
  | Request_timeout | Request_failed | Unexpected_error | Content_filtered filter_reason

text \<open>The dictionary \<open>fetch_safe_content\<close> returns on success.\<close>

record fetched =
  got_content :: pystr
  got_fetch_time :: real
  got_content_length :: nat
  got_url :: pystr

record search_hit =
  hit_title :: pystr
  hit_url :: pystr
  hit_snippet :: pystr

record processed_result =
  res_title :: pystr
  res_url :: pystr
  res_snippet :: pystr
  res_content :: pystr
  res_trust_score :: real
  res_domain_type :: trust_reason
  res_fetch_time :: real
  res_content_length :: nat

record search_data =
  found_query :: pystr
  results :: "processed_result list"
  total_found :: nat
  search_time :: real
  found_timestamp :: real

datatype search_error =
  Query_blocked safety_reason | Rate_limit_exceeded | No_search_results | Search_failed

datatype search_response = Failure search_error | Success search_data

text \<open>Rows of the tables \<open>web_requests\<close> and \<open>blocked_attempts\<close>.\<close>

record web_request_row =
  wr_query :: pystr
  wr_url :: pystr
  wr_domain :: pystr
  wr_success :: bool
  wr_content_length :: nat
  wr_response_time :: real
  wr_trust_score :: real
  wr_filtered_reason :: "trust_reason option"
  wr_user_context :: "pystr option"

record blocked_attempt_row =
  ba_query :: pystr
  ba_url :: pystr
  ba_block_reason :: safety_reason
  ba_severity :: pystr

text \<open>
  The attributes of \<open>SafeWebAccess\<close> that its methods read and change, and the two
  tables of its database. \<open>request_history\<close> holds the global window under the key
  \<open>"global"\<close> and each host's window under the host, in one dictionary.
\<close>

record web_state =
  trusted_domains :: "(pystr \<times> domain_info) list"
  blocked_domains :: "pystr list"
  request_history :: "pystr \<rightharpoonup> real list"
  cache :: "pystr \<rightharpoonup> search_response \<times> real"
  web_requests :: "web_request_row list"
  blocked_attempts :: "blocked_attempt_row list"

definition init_web_state :: web_state where
  "init_web_state =
     \<lparr>trusted_domains = initial_trusted_domains, blocked_domains = initial_blocked_domains,
      request_history = Map.empty, cache = Map.empty, web_requests = [],
      blocked_attempts = []\<rparr>"

subsection \<open>What the gateway reads from outside\<close>

text \<open>
  What \<open>int()\<close> makes of the \<open>content-length\<close> header of a HEAD response: the header is
  missing or empty, is a number, or does not parse (\<open>int()\<close> raises).
\<close>

datatype length_header = Length_missing | Length_number int | Length_malformed

text \<open>A HEAD response: its \<open>content-length\<close>, and its \<open>content-type\<close> (\<open>""\<close> if absent).\<close>

datatype head_response = Head_response length_header pystr

text \<open>
  A GET with \<open>raise_for_status\<close> and the iteration over its body: a timeout, another
  \<open>RequestException\<close>, any other exception, or the chunks of the body.
\<close>

datatype get_outcome = Get_timeout | Get_request_exception | Get_other_exception
  | Get_chunks "pystr list"

text \<open>
  The library calls and the network are inputs of the model:
  \<^item> \<open>str_lower\<close> is \<open>str.lower\<close>, which follows the Unicode tables;
  \<^item> \<open>urlparse\<close> gives the scheme and the netloc of a URL, \<open>None\<close> when it raises;
  \<^item> \<open>pattern_search pattern s\<close> is the truth value of \<open>re.search(pattern, s)\<close> for a
    pattern of \<open>suspicious_patterns\<close>;
  \<^item> \<open>http_head\<close> (\<open>None\<close> when the request raises) and \<open>http_get\<close> are the network;
  \<^item> \<open>extract_text_from_html\<close> is the method of that name, BeautifulSoup or its
    fallback;
  \<^item> \<open>wikipedia_summary\<close> is what \<open>search_wikipedia\<close> returns for a query: the list
    with the summary page, or the empty list;
  \<^item> \<open>query_md5\<close> is the MD5 digest of the UTF-8 encoding of a query;
  \<^item> \<open>web_db_insert_ok\<close> says whether the INSERTs of this call succeed.
  Each call of a public method reads the clock once, as \<open>now\<close>; elapsed times within a
  call are therefore 0.
\<close>

record web_env =
  str_lower :: "pystr \<Rightarrow> pystr"
  urlparse :: "pystr \<Rightarrow> (pystr \<times> pystr) option"
  pattern_search :: "suspicious_pattern \<Rightarrow> pystr \<Rightarrow> bool"
  http_head :: "pystr \<Rightarrow> head_response option"
  http_get :: "pystr \<Rightarrow> get_outcome"
  extract_text_from_html :: "pystr \<Rightarrow> pystr"
  wikipedia_summary :: "pystr \<Rightarrow> search_hit list"
  query_md5 :: "pystr \<Rightarrow> pystr"
  web_db_insert_ok :: bool

subsection \<open>Rate limiting\<close>

text \<open>A host argument counts when it is neither \<open>None\<close> nor empty.\<close>

definition truthy :: "pystr option \<Rightarrow> bool" where
  "truthy d \<longleftrightarrow> (case d of None \<Rightarrow> False | Some x \<Rightarrow> x \<noteq> [])"

definition history_get :: "(pystr \<rightharpoonup> real list) \<Rightarrow> pystr \<Rightarrow> real list" where
  "history_get h k = (case h k of None \<Rightarrow> [] | Some l \<Rightarrow> l)"

definition is_rate_limited :: "real \<Rightarrow> pystr option \<Rightarrow> (pystr \<rightharpoonup> real list) \<Rightarrow> bool" where
  "is_rate_limited now d h =
     (let global_requests =
            filter (\<lambda>req_time. now - req_time < global_window) (history_get h (str ''global''))
      in if length global_requests \<ge> global_requests_limit then True
         else if truthy d
         then (let domain_requests =
                     filter (\<lambda>req_time. now - req_time < per_domain_window)
                       (history_get h (the d))
               in length domain_requests \<ge> per_domain_requests_limit)
         else False)"

definition cleanup_request_history ::
  "real \<Rightarrow> (pystr \<rightharpoonup> real list) \<Rightarrow> (pystr \<rightharpoonup> real list)" where
  "cleanup_request_history now h =
     (let window = max global_window per_domain_window
      in (\<lambda>key. map_option (filter (\<lambda>req_time. now - req_time < window)) (h key)))"

definition record_request ::
  "real \<Rightarrow> pystr option \<Rightarrow> (pystr \<rightharpoonup> real list) \<Rightarrow> (pystr \<rightharpoonup> real list)" where
  "record_request now d h =
     (let h1 = h(str ''global'' \<mapsto> history_get h (str ''global'') @ [now]);
          h2 = (if truthy d then h1(the d \<mapsto> history_get h1 (the d) @ [now]) else h1)
      in cleanup_request_history now h2)"

subsection \<open>Queries and domains\<close>

definition is_safe_query :: "web_env \<Rightarrow> pystr \<Rightarrow> bool \<times> safety_reason" where
  "is_safe_query E query =
     (if query = [] \<or> length (strip query) = 0 then (False, Empty_query)
      else let query_lower = str_lower E query in
        case find (\<lambda>(category, keywords). list_ex (\<lambda>keyword. contains keyword query_lower) keywords)
               safety_filters of
          Some (category, keywords) \<Rightarrow> (False, Contains_category category)
        | None \<Rightarrow>
            if list_ex (\<lambda>pattern. pattern_search E pattern query_lower) suspicious_patterns
            then (False, Matches_suspicious_pattern)
            else (True, Query_is_safe))"

text \<open>The host of a URL as both methods compute it: lower case, without a leading \<open>www.\<close>\<close>

definition strip_www :: "pystr \<Rightarrow> pystr" where
  "strip_www d = (if startswith d (str ''www.'') then drop 4 d else d)"

definition is_trusted_domain :: "web_env \<Rightarrow> web_state \<Rightarrow> pystr \<Rightarrow> bool \<times> real \<times> trust_reason" where
  "is_trusted_domain E s u =
     (case urlparse E u of
        None \<Rightarrow> (False, 0, Error_parsing_domain)
      | Some (scheme, netloc) \<Rightarrow>
          let d = strip_www (str_lower E netloc) in
          if list_ex (\<lambda>blocked_domain. contains blocked_domain d) (blocked_domains s)
          then (False, 0, Domain_is_blocked d)
          else (case find (\<lambda>(trusted_domain, info). contains trusted_domain d)
                       (trusted_domains s) of
                  Some (trusted_domain, info) \<Rightarrow>
                    (True, trust info, Trusted_domain (domain_type info))
                | None \<Rightarrow> (False, 2/10, Not_in_trusted_list d)))"

subsection \<open>Content filters\<close>

text \<open>\<open>str.split()\<close> without argument: the maximal runs of characters that are not whitespace.\<close>

fun split_from :: "pystr \<Rightarrow> pystr \<Rightarrow> pystr list" where
  "split_from [] w = (if w = [] then [] else [w])"
| "split_from (c # cs) w =
     (if isspace c then (if w = [] then split_from cs [] else w # split_from cs [])
      else split_from cs (w @ [c]))"

definition split :: "pystr \<Rightarrow> pystr list" where
  "split s = split_from s []"

text \<open>
  \<open>apply_content_filters(content)\<close>. The ratio of unique words is a quotient of two
  counts compared with 0.3; for texts below the size cap its floating-point value is on
  the same side of 0.3 as the exact quotient.
\<close>

definition apply_content_filters :: "web_env \<Rightarrow> pystr \<Rightarrow> bool \<times> filter_reason" where
  "apply_content_filters E text_content =
     (if text_content = [] \<or> length (strip text_content) = 0 then (False, Filter_empty_content)
      else let content_lower = str_lower E text_content in
        case find (\<lambda>(category, keywords).
                     length (filter (\<lambda>keyword. contains keyword content_lower) keywords) > 2)
               safety_filters of
          Some (category, keywords) \<Rightarrow> (False, High_content_density category)
        | None \<Rightarrow>
            if length text_content < 50 then (False, Content_too_short)
            else let words = split content_lower in
              if length words > 30 \<and>
                 real (length (remdups words)) / real (length words) < 3/10
              then (False, Spam_or_repetitive)
              else (True, Content_is_safe))"

subsection \<open>Fetching\<close>

text \<open>
  The HEAD check. Its \<open>try\<close> block returns from the method on a body announced as too
  large or on an unsupported type; whatever raises inside it (the request, \<open>int()\<close>) is
  passed over, and the GET follows.
\<close>

definition head_check :: "web_env \<Rightarrow> head_response option \<Rightarrow> fetch_error option" where
  "head_check E r =
     (case r of
        None \<Rightarrow> None
      | Some (Head_response len ctype) \<Rightarrow>
          (case len of
             Length_malformed \<Rightarrow> None
           | Length_number n \<Rightarrow>
               if n > int max_content_length then Some Content_too_large
               else if \<not> list_ex (\<lambda>ct. contains ct (str_lower E ctype))
                          [str ''text/html'', str ''text/plain'', str ''application/json'']
               then Some Unsupported_content_type else None
           | Length_missing \<Rightarrow>
               if \<not> list_ex (\<lambda>ct. contains ct (str_lower E ctype))
                        [str ''text/html'', str ''text/plain'', str ''application/json'']
               then Some Unsupported_content_type else None))"

text \<open>The loop over the chunks of the body: it stops at the chunk that passes the cap.\<close>

fun read_chunks :: "pystr list \<Rightarrow> pystr \<Rightarrow> nat \<Rightarrow> pystr" where
  "read_chunks [] body total_size = body"
| "read_chunks (chunk # rest) body total_size =
     (if chunk \<noteq> []
      then (if total_size + length chunk > max_content_length then body
            else read_chunks rest (body @ chunk) (total_size + length chunk))
      else read_chunks rest body total_size)"

definition fetch_safe_content ::
  "web_env \<Rightarrow> real \<Rightarrow> pystr \<Rightarrow> web_state \<Rightarrow> (fetch_error + fetched) \<times> web_state" where
  "fetch_safe_content E now u s =
     (case urlparse E u of
        None \<Rightarrow> (Inl Unexpected_error, s)
      | Some (scheme, netloc) \<Rightarrow>
          if scheme = [] \<or> netloc = [] then (Inl Invalid_URL, s)
          else let d = strip_www (str_lower E netloc) in
            if is_rate_limited now (Some d) (request_history s)
            then (Inl Domain_rate_limit_exceeded, s)
            else (case head_check E (http_head E u) of
              Some err \<Rightarrow> (Inl err, s)
            | None \<Rightarrow>
               (case http_get E u of
                  Get_timeout \<Rightarrow> (Inl Request_timeout, s)
                | Get_request_exception \<Rightarrow> (Inl Request_failed, s)
                | Get_other_exception \<Rightarrow> (Inl Unexpected_error, s)
                | Get_chunks chunks \<Rightarrow>
                    let text_content = extract_text_from_html E (read_chunks chunks [] 0) in
                    (case apply_content_filters E text_content of
                       (False, filter_reason) \<Rightarrow> (Inl (Content_filtered filter_reason), s)
                     | (True, filter_reason) \<Rightarrow>
                         (Inr \<lparr>got_content = take 3000 text_content, got_fetch_time = 0,
                               got_content_length = length text_content, got_url = u\<rparr>,
                          s\<lparr>request_history :=
                              record_request now (Some d) (request_history s)\<rparr>)))))"

subsection \<open>Searching\<close>

text \<open>A slice \<open>xs[:n]\<close> for an integer \<open>n\<close>, which counts from the end when negative.\<close>

definition slice_to :: "int \<Rightarrow> 'a list \<Rightarrow> 'a list" where
  "slice_to n xs = (if 0 \<le> n then take (nat n) xs else take (length xs - nat (- n)) xs)"

definition replace_space :: "nat \<Rightarrow> pystr \<Rightarrow> pystr" where
  "replace_space by s = map (\<lambda>c. if c = 32 then by else c) s"

definition search_trusted_sources :: "web_env \<Rightarrow> web_state \<Rightarrow> pystr \<Rightarrow> int \<Rightarrow> search_hit list" where
  "search_trusted_sources E s query max_results =
     (let trusted_examples =
        [\<lparr>hit_title = str ''Technical documentation for '' @ query,
          hit_url = str ''https://github.com/search?q='' @ replace_space 43 query,
          hit_snippet = str ''Technical resources and documentation related to '' @ query\<rparr>,
         \<lparr>hit_title = str ''Stack Overflow discussions about '' @ query,
          hit_url = str ''https://stackoverflow.com/search?q='' @ replace_space 43 query,
          hit_snippet = str ''Community discussions and solutions for '' @ query\<rparr>]
      in filter (\<lambda>example. fst (is_trusted_domain E s (hit_url example)))
           (slice_to max_results trusted_examples))"

definition simple_search_fallback :: "web_env \<Rightarrow> web_state \<Rightarrow> pystr \<Rightarrow> int \<Rightarrow> search_hit list" where
  "simple_search_fallback E s query max_results =
     (let found = (if str ''wikipedia.org'' \<in> set (map fst (trusted_domains s))
                   then wikipedia_summary E query else []);
          found = (if int (length found) < max_results
                   then found @ search_trusted_sources E s query (max_results - int (length found))
                   else found)
      in slice_to max_results found)"

text \<open>
  \<open>log_web_request\<close> and \<open>log_blocked_attempt\<close>: one row, unless \<open>urlparse\<close> or the
  INSERT raises, which is logged and swallowed.
\<close>

definition log_web_request ::
  "web_env \<Rightarrow> pystr \<Rightarrow> pystr \<Rightarrow> bool \<Rightarrow> nat \<Rightarrow> real \<Rightarrow> real \<Rightarrow> trust_reason option
     \<Rightarrow> pystr option \<Rightarrow> web_state \<Rightarrow> web_state" where
  "log_web_request E query u success len response_time trust_score filtered_reason ctx s =
     (case urlparse E u of
        None \<Rightarrow> s
      | Some (scheme, netloc) \<Rightarrow>
          if web_db_insert_ok E
          then s\<lparr>web_requests := web_requests s @
                  [\<lparr>wr_query = query, wr_url = u, wr_domain = str_lower E netloc,
                    wr_success = success, wr_content_length = len,
                    wr_response_time = response_time, wr_trust_score = trust_score,
                    wr_filtered_reason = filtered_reason, wr_user_context = ctx\<rparr>]\<rparr>
          else s)"

definition log_blocked_attempt ::
  "web_env \<Rightarrow> pystr \<Rightarrow> pystr \<Rightarrow> safety_reason \<Rightarrow> pystr \<Rightarrow> web_state \<Rightarrow> web_state" where
  "log_blocked_attempt E query u reason severity s =
     (if web_db_insert_ok E
      then s\<lparr>blocked_attempts := blocked_attempts s @
              [\<lparr>ba_query = query, ba_url = u, ba_block_reason = reason,
                ba_severity = severity\<rparr>]\<rparr>
      else s)"

text \<open>
  The loop of \<open>search_web_safely\<close> over the search results: a result of a trusted domain
  with trust above 0.5 is fetched, and kept and logged if the fetch succeeds; any other
  result is logged as filtered.
\<close>

fun process_results ::
  "web_env \<Rightarrow> real \<Rightarrow> pystr \<Rightarrow> pystr option \<Rightarrow> search_hit list \<Rightarrow> processed_result list
     \<Rightarrow> web_state \<Rightarrow> processed_result list \<times> web_state" where
  "process_results E now query ctx [] processed s = (processed, s)"
| "process_results E now query ctx (r # rest) processed s =
     (case is_trusted_domain E s (hit_url r) of
        (is_trusted, trust_score, trust_reason) \<Rightarrow>
          if is_trusted \<and> trust_score > 5/10
          then (case fetch_safe_content E now (hit_url r) s of
                  (Inr content_data, s1) \<Rightarrow>
                    process_results E now query ctx rest
                      (processed @
                        [\<lparr>res_title = hit_title r, res_url = hit_url r,
                          res_snippet = hit_snippet r, res_content = got_content content_data,
                          res_trust_score = trust_score, res_domain_type = trust_reason,
                          res_fetch_time = got_fetch_time content_data,
                          res_content_length = length (got_content content_data)\<rparr>])
                      (log_web_request E query (hit_url r) True
                         (length (got_content content_data)) (got_fetch_time content_data)
                         trust_score None ctx s1)
                | (Inl err, s1) \<Rightarrow> process_results E now query ctx rest processed s1)
          else process_results E now query ctx rest processed
                 (log_web_request E query (hit_url r) False 0 0 trust_score
                    (Some trust_reason) ctx s))"

text \<open>The cache read of \<open>search_web_safely\<close>: an entry younger than the TTL.\<close>

definition cache_lookup ::
  "real \<Rightarrow> (pystr \<rightharpoonup> search_response \<times> real) \<Rightarrow> pystr \<Rightarrow> search_response option" where
  "cache_lookup now c cache_key =
     (case c cache_key of
        Some (cached, stamp) \<Rightarrow> if now - stamp < cache_ttl then Some cached else None
      | None \<Rightarrow> None)"

text \<open>
  \<open>search_web_safely(query, max_results, user_context)\<close>. Within its \<open>try\<close> block only
  \<open>generate_cache_key\<close> raises on a text, when the query cannot be encoded.
\<close>

definition search_web_safely ::
  "web_env \<Rightarrow> real \<Rightarrow> pystr \<Rightarrow> int \<Rightarrow> pystr option \<Rightarrow> web_state
     \<Rightarrow> search_response \<times> web_state" where
  "search_web_safely E now query max_results ctx s =
     (case is_safe_query E query of
        (False, safety_reason) \<Rightarrow>
          (Failure (Query_blocked safety_reason),
           log_blocked_attempt E query [] safety_reason (str ''HIGH'') s)
      | (True, safety_reason) \<Rightarrow>
          if is_rate_limited now None (request_history s) then (Failure Rate_limit_exceeded, s)
          else if \<not> utf8_encodable query then (Failure Search_failed, s)
          else let cache_key = query_md5 E query in
            (case cache_lookup now (cache s) cache_key of
              Some cached \<Rightarrow> (cached, s)
            | None \<Rightarrow>
                let search_results = simple_search_fallback E s query max_results in
                if search_results = [] then (Failure No_search_results, s)
                else
                  (case process_results E now query ctx search_results [] s of
                    (processed_results, s1) \<Rightarrow>
                      let s2 = s1\<lparr>request_history :=
                                    record_request now None (request_history s1)\<rparr>;
                          result_data = Success
                            \<lparr>found_query = query, results = processed_results,
                             total_found = length processed_results, search_time = 0,
                             found_timestamp = now\<rparr>
                      in (result_data,
                          s2\<lparr>cache := (cache s2)(cache_key \<mapsto> (result_data, now))\<rparr>))))"


subsection \<open>The trust lookup in the words of the specification\<close>

text \<open>
  The specification has the trusted-domain table matched by suffix. This is
  \<open>is_trusted_domain\<close> with that one test in place of the substring test of the code.
\<close>

definition endswith :: "pystr \<Rightarrow> pystr \<Rightarrow> bool" where
  "endswith s suffix = startswith (rev s) (rev suffix)"

definition is_trusted_domain_by_suffix ::
  "web_env \<Rightarrow> web_state \<Rightarrow> pystr \<Rightarrow> bool \<times> real \<times> trust_reason" where
  "is_trusted_domain_by_suffix E s u =
     (case urlparse E u of
        None \<Rightarrow> (False, 0, Error_parsing_domain)
      | Some (scheme, netloc) \<Rightarrow>
          let d = strip_www (str_lower E netloc) in
          if list_ex (\<lambda>blocked_domain. contains blocked_domain d) (blocked_domains s)
          then (False, 0, Domain_is_blocked d)
          else (case find (\<lambda>(trusted_domain, info). endswith d trusted_domain)
                       (trusted_domains s) of
                  Some (trusted_domain, info) \<Rightarrow>
                    (True, trust info, Trusted_domain (domain_type info))
                | None \<Rightarrow> (False, 2/10, Not_in_trusted_list d)))"

subsection \<open>Vocabulary of the statements about the gateway\<close>

text \<open>The global window of the rate limiter.\<close>

definition global_history :: "web_state \<Rightarrow> real list" where
  "global_history s = history_get (request_history s) (str ''global'')"

text \<open>The timestamps of a window that \<open>cleanup_request_history\<close> keeps.\<close>

definition recent :: "real \<Rightarrow> real list \<Rightarrow> real list" where
  "recent now window = filter (\<lambda>req_time. now - req_time < max global_window per_domain_window) window"

text \<open>The host under which \<open>fetch_safe_content\<close> records a URL.\<close>

definition fetch_host :: "web_env \<Rightarrow> pystr \<Rightarrow> pystr" where
  "fetch_host E u =
     (case urlparse E u of
        None \<Rightarrow> []
      | Some (scheme, netloc) \<Rightarrow> strip_www (str_lower E netloc))"

text \<open>No category of \<open>safety_filters\<close> has more than two of its keywords in a text.\<close>

definition no_dense_category :: "web_env \<Rightarrow> pystr \<Rightarrow> bool" where
  "no_dense_category E text_content \<longleftrightarrow>
     list_all (\<lambda>(category, keywords).
                 length (filter (\<lambda>keyword. contains keyword (str_lower E text_content)) keywords)
                   \<le> 2)
       safety_filters"

text \<open>
  The text \<open>fetch_safe_content\<close> filters and returns: the body read up to the cap, with
  the markup removed.
\<close>

definition sanitized_text :: "web_env \<Rightarrow> pystr \<Rightarrow> pystr" where
  "sanitized_text E u =
     (case http_get E u of
        Get_chunks chunks \<Rightarrow> extract_text_from_html E (read_chunks chunks [] 0)
      | _ \<Rightarrow> [])"

subsection \<open>A concrete network\<close>

text \<open>
  An environment for the examples. \<open>ascii_lower\<close> is \<open>str.lower\<close> on ASCII text, and
  \<open>demo_urlparse\<close> lists what \<open>urlparse\<close> returns on the example URLs. Every page is one
  chunk of plain text, which the text extraction leaves as it is; the page of the
  encyclopedia is one word of 3001 letters. No example query matches a suspicious
  pattern, and the encyclopedia has no summary for it.
\<close>

definition ascii_lower :: "pystr \<Rightarrow> pystr" where
  "ascii_lower s = map (\<lambda>c. if 65 \<le> c \<and> c \<le> 90 then c + 32 else c) s"

definition demo_urlparse :: "pystr \<Rightarrow> (pystr \<times> pystr) option" where
  "demo_urlparse u =
     (if u = str ''https://en.wikipedia.org/wiki/Cat''
      then Some (str ''https'', str ''en.wikipedia.org'')
      else if u = str ''https://www.4chan.org/b''
      then Some (str ''https'', str ''www.4chan.org'')
      else if u = str ''https://gab.com.wikipedia.org/''
      then Some (str ''https'', str ''gab.com.wikipedia.org'')
      else if u = str ''https://github.com.evil.example/x''
      then Some (str ''https'', str ''github.com.evil.example'')
      else if u = str ''https://example.com/''
      then Some (str ''https'', str ''example.com'')
      else if u = str ''https://github.com/search?q=cats''
      then Some (str ''https'', str ''github.com'')
      else if u = str ''https://stackoverflow.com/search?q=cats''
      then Some (str ''https'', str ''stackoverflow.com'')
      else Some ([], []))"

definition demo_page :: pystr where
  "demo_page = str ''Search results for cats: questions, projects and pictures of cats''"

text \<open>The two results \<open>search_trusted_sources\<close> builds for the query \<open>"cats"\<close>.\<close>

definition github_hit :: search_hit where
  "github_hit =
     \<lparr>hit_title = str ''Technical documentation for cats'',
      hit_url = str ''https://github.com/search?q=cats'',
      hit_snippet = str ''Technical resources and documentation related to cats''\<rparr>"

definition stackoverflow_hit :: search_hit where
  "stackoverflow_hit =
     \<lparr>hit_title = str ''Stack Overflow discussions about cats'',
      hit_url = str ''https://stackoverflow.com/search?q=cats'',
      hit_snippet = str ''Community discussions and solutions for cats''\<rparr>"

definition demo_web_env :: web_env where
  "demo_web_env =
     \<lparr>str_lower = ascii_lower,
      urlparse = demo_urlparse,
      pattern_search = (\<lambda>pattern query. False),
      http_head = (\<lambda>u. Some (Head_response Length_missing (str ''text/html''))),
      http_get = (\<lambda>u. if u = str ''https://en.wikipedia.org/wiki/Cat''
                       then Get_chunks [replicate 3001 97] else Get_chunks [demo_page]),
      extract_text_from_html = (\<lambda>html. html),
      wikipedia_summary = (\<lambda>query. []),
      query_md5 = (\<lambda>query. str ''0832c1202da8d382318e329a7c133ea0''),
      web_db_insert_ok = True\<rparr>"


section \<open>Facts about text\<close>

lemma str_eq_iff [simp]: "str a = str b \<longleftrightarrow> a = b"
  unfolding str_def by (simp add: inj_of_char)

lemma str_Nil_iff [simp]: "str a = [] \<longleftrightarrow> a = []"
  by (simp add: str_def)

lemma strip_empty_iff: "strip s = [] \<longleftrightarrow> list_all isspace s"
proof
  assume "strip s = []"
  then have "dropWhile isspace (rev (dropWhile isspace s)) = []"
    by (simp add: strip_def)
  then have *: "\<forall>c \<in> set (dropWhile isspace s). isspace c"
    by simp
  have "dropWhile isspace s = []"
  proof (rule ccontr)
    assume ne: "dropWhile isspace s \<noteq> []"
    then have "\<not> isspace (hd (dropWhile isspace s))"
      by (rule hd_dropWhile)
    moreover have "hd (dropWhile isspace s) \<in> set (dropWhile isspace s)"
      using ne by (rule hd_in_set)
    ultimately show False using * by blast
  qed
  then show "list_all isspace s"
    by (simp add: list_all_iff)
next
  assume "list_all isspace s"
  then have d: "dropWhile isspace s = []"
    by (simp add: list_all_iff)
  show "strip s = []"
    unfolding strip_def d by simp
qed


section \<open>The policy table\<close>

lemma detector_names_set:
  "c \<in> set detector_names \<longleftrightarrow>
     c = str ''violence'' \<or> c = str ''adult'' \<or> c = str ''hate_speech'' \<or> c = str ''illegal'' \<or>
     c = str ''medical'' \<or> c = str ''political'' \<or> c = str ''controversial'' \<or>
     c = str ''educational'' \<or> c = str ''technical'' \<or> c = str ''creative''"
  by (simp add: detector_names_def)

lemma level_names_set:
  "l \<in> set level_names \<longleftrightarrow>
     l = str ''safe'' \<or> l = str ''educational'' \<or> l = str ''research'' \<or> l = str ''unrestricted''"
  by (simp add: level_hierarchy_def level_names_def)

lemma level_rank [simp]:
  "dict_get level_hierarchy (str ''safe'') 0 = 0"
  "dict_get level_hierarchy (str ''educational'') 0 = 1"
  "dict_get level_hierarchy (str ''research'') 0 = 2"
  "dict_get level_hierarchy (str ''unrestricted'') 0 = 3"
  by (simp_all add: dict_get_def level_hierarchy_def)

lemma level_rank_unknown:
  "R \<notin> set level_names \<Longrightarrow> dict_get level_hierarchy R 0 = 0"
  by (simp add: dict_get_def level_hierarchy_def level_names_def)

lemmas table_defs = threshold_of_def policies_def safe_policy_def educational_policy_def
  research_policy_def unrestricted_policy_def

lemma thresholds_safe:
  "threshold_of (str ''safe'') (str ''violence'') = Some (1/10)"
  "threshold_of (str ''safe'') (str ''adult'') = Some 0"
  "threshold_of (str ''safe'') (str ''hate_speech'') = Some 0"
  "threshold_of (str ''safe'') (str ''illegal'') = Some 0"
  "threshold_of (str ''safe'') (str ''medical'') = Some (3/10)"
  "threshold_of (str ''safe'') (str ''political'') = Some (2/10)"
  "threshold_of (str ''safe'') (str ''controversial'') = Some (2/10)"
  "threshold_of (str ''safe'') (str ''educational'') = Some 1"
  "threshold_of (str ''safe'') (str ''technical'') = Some 1"
  "threshold_of (str ''safe'') (str ''creative'') = Some (8/10)"
  by (simp_all add: table_defs)

lemma thresholds_educational:
  "threshold_of (str ''educational'') (str ''violence'') = Some (3/10)"
  "threshold_of (str ''educational'') (str ''adult'') = Some (1/10)"
  "threshold_of (str ''educational'') (str ''hate_speech'') = Some (1/10)"
  "threshold_of (str ''educational'') (str ''illegal'') = Some (2/10)"
  "threshold_of (str ''educational'') (str ''medical'') = Some (8/10)"
  "threshold_of (str ''educational'') (str ''political'') = Some (7/10)"
  "threshold_of (str ''educational'') (str ''controversial'') = Some (6/10)"
  "threshold_of (str ''educational'') (str ''educational'') = Some 1"
  "threshold_of (str ''educational'') (str ''technical'') = Some 1"
  "threshold_of (str ''educational'') (str ''creative'') = Some 1"
  by (simp_all add: table_defs)

lemma thresholds_research:
  "threshold_of (str ''research'') (str ''violence'') = Some (6/10)"
  "threshold_of (str ''research'') (str ''adult'') = Some (4/10)"
  "threshold_of (str ''research'') (str ''hate_speech'') = Some (3/10)"
  "threshold_of (str ''research'') (str ''illegal'') = Some (5/10)"
  "threshold_of (str ''research'') (str ''medical'') = Some 1"
  "threshold_of (str ''research'') (str ''political'') = Some 1"
  "threshold_of (str ''research'') (str ''controversial'') = Some (9/10)"
  "threshold_of (str ''research'') (str ''educational'') = Some 1"
  "threshold_of (str ''research'') (str ''technical'') = Some 1"
  "threshold_of (str ''research'') (str ''creative'') = Some 1"
  by (simp_all add: table_defs)

lemma thresholds_unrestricted:
  "threshold_of (str ''unrestricted'') (str ''violence'') = Some (8/10)"
  "threshold_of (str ''unrestricted'') (str ''adult'') = Some (7/10)"
  "threshold_of (str ''unrestricted'') (str ''hate_speech'') = Some (5/10)"
  "threshold_of (str ''unrestricted'') (str ''illegal'') = Some (3/10)"
  "threshold_of (str ''unrestricted'') (str ''medical'') = Some 1"
  "threshold_of (str ''unrestricted'') (str ''political'') = Some 1"
  "threshold_of (str ''unrestricted'') (str ''controversial'') = Some 1"
  "threshold_of (str ''unrestricted'') (str ''educational'') = Some 1"
  "threshold_of (str ''unrestricted'') (str ''technical'') = Some 1"
  "threshold_of (str ''unrestricted'') (str ''creative'') = Some 1"
  by (simp_all add: table_defs)

lemmas thresholds = thresholds_safe thresholds_educational thresholds_research
  thresholds_unrestricted

lemma threshold_total:
  assumes "l \<in> set level_names" "c \<in> set detector_names"
  shows "\<exists>t. threshold_of l c = Some t"
  using assms unfolding detector_names_set level_names_set
  by (elim disjE) (simp_all only: thresholds, blast+)

lemma table_step:
  assumes "c \<in> set detector_names" "c \<noteq> str ''illegal''"
  shows "the (threshold_of (str ''safe'') c) \<le> the (threshold_of (str ''educational'') c)"
    and "the (threshold_of (str ''educational'') c) \<le> the (threshold_of (str ''research'') c)"
    and "the (threshold_of (str ''research'') c) \<le> the (threshold_of (str ''unrestricted'') c)"
  using assms unfolding detector_names_set
  by (auto simp add: thresholds)

text \<open>
  C6. In the configured table, for levels \<open>l1\<close> below \<open>l2\<close> in the hierarchy and every
  category other than \<open>illegal\<close>, the threshold at \<open>l2\<close> is at least the threshold at
  \<open>l1\<close>; and the \<open>illegal\<close> threshold at \<open>unrestricted\<close> is strictly below the one at
  \<open>research\<close>.
\<close>

theorem policy_table_monotone_except_illegal:
  "(\<forall>l1 \<in> set level_names. \<forall>l2 \<in> set level_names. \<forall>c \<in> set detector_names.
        dict_get level_hierarchy l1 0 < dict_get level_hierarchy l2 0 \<longrightarrow> c \<noteq> str ''illegal'' \<longrightarrow>
        (\<exists>t1 t2. threshold_of l1 c = Some t1 \<and> threshold_of l2 c = Some t2 \<and> t1 \<le> t2))
   \<and> (\<exists>t2 t3. threshold_of (str ''research'') (str ''illegal'') = Some t2
         \<and> threshold_of (str ''unrestricted'') (str ''illegal'') = Some t3 \<and> t3 < t2)"
proof (intro conjI ballI impI)
  fix l1 l2 c
  assume l1: "l1 \<in> set level_names" and l2: "l2 \<in> set level_names"
    and c: "c \<in> set detector_names" "c \<noteq> str ''illegal''"
    and lt: "dict_get level_hierarchy l1 0 < dict_get level_hierarchy l2 0"
  obtain t1 where t1: "threshold_of l1 c = Some t1"
    using threshold_total[OF l1 c(1)] by blast
  obtain t2 where t2: "threshold_of l2 c = Some t2"
    using threshold_total[OF l2 c(1)] by blast
  note st = table_step[OF c]
  from l1 l2 lt st have "the (threshold_of l1 c) \<le> the (threshold_of l2 c)"
    unfolding level_names_set by (elim disjE; simp)
  with t1 t2 show "\<exists>t1 t2. threshold_of l1 c = Some t1 \<and> threshold_of l2 c = Some t2 \<and> t1 \<le> t2"
    by simp
next
  have "(3/10 :: real) < 5/10" by simp
  then show "\<exists>t2 t3. threshold_of (str ''research'') (str ''illegal'') = Some t2
         \<and> threshold_of (str ''unrestricted'') (str ''illegal'') = Some t3 \<and> t3 < t2"
    unfolding thresholds by blast
qed

theorem policy_table_monotone_except_illegal_witness:
  "str ''safe'' \<in> set level_names \<and> str ''research'' \<in> set level_names
   \<and> str ''violence'' \<in> set detector_names
   \<and> dict_get level_hierarchy (str ''safe'') 0 < dict_get level_hierarchy (str ''research'') 0
   \<and> str ''violence'' \<noteq> str ''illegal''
   \<and> threshold_of (str ''safe'') (str ''violence'') = Some (1/10)
   \<and> threshold_of (str ''research'') (str ''violence'') = Some (6/10)
   \<and> (1/10 :: real) \<le> 6/10"
  using policy_table_monotone_except_illegal
  by (simp add: level_names_set detector_names_set thresholds)


section \<open>Session tokens\<close>

text \<open>Minted tokens have 32 digits, and every operation keeps the table so.\<close>

lemma length_hexdigest [simp]: "length (hexdigest n v) = n"
  by (simp add: hexdigest_def)

lemma generate_auth_token_length:
  "generate_auth_token E now uid lvl h s = (t, s') \<Longrightarrow> t = [] \<and> s' = s \<or> length t = 32"
  by (auto simp add: generate_auth_token_def Let_def split: if_splits option.splits)

lemma tokens_minted_init: "tokens_minted init_policy_state"
  by (simp add: tokens_minted_def init_policy_state_def)

lemma tokens_minted_generate:
  "tokens_minted s \<Longrightarrow> tokens_minted (snd (generate_auth_token E now uid lvl h s))"
  by (auto simp add: tokens_minted_def generate_auth_token_def Let_def split: if_splits option.splits)

lemma tokens_minted_verify:
  "tokens_minted s \<Longrightarrow> tokens_minted (snd (verify_authorization now token r s))"
  by (auto simp add: tokens_minted_def verify_authorization_def split: if_splits option.splits)

lemma session_tokens_check [simp]:
  "session_tokens (snd (check_temporary_overrides E now content s)) = session_tokens s"
  by (simp add: check_temporary_overrides_def split: scan.splits)

lemma session_tokens_log [simp]:
  "session_tokens (log_content_evaluation E h r ctx s) = session_tokens s"
  by (simp add: log_content_evaluation_def split: level_attr.splits)

lemma tokens_minted_evaluate:
  "tokens_minted s \<Longrightarrow> tokens_minted (snd (evaluate_content E now content ctx s))"
  by (simp add: tokens_minted_def evaluate_content_def Let_def split: prod.splits)
    (metis session_tokens_check snd_conv)

lemma tokens_minted_set_level:
  "tokens_minted s \<Longrightarrow> tokens_minted (snd (set_policy_level now lvl tok s))"
  using tokens_minted_verify[of s now tok lvl]
  by (auto simp add: set_policy_level_def tokens_minted_def split: prod.splits bool.splits)

lemma tokens_minted_add_override:
  "tokens_minted s \<Longrightarrow> tokens_minted (snd (add_temporary_override E now p h reason tok s))"
  using tokens_minted_verify[of s now tok "str ''research''"]
  by (auto simp add: add_temporary_override_def tokens_minted_def split: prod.splits bool.splits option.splits)

lemma minted_nonempty: "tokens_minted s \<Longrightarrow> session_tokens s t = Some sess \<Longrightarrow> t \<noteq> []"
  by (auto simp add: tokens_minted_def dom_def)

section \<open>Authorization\<close>

lemma verify_authorization_iff:
  "tokens_minted s \<Longrightarrow>
   fst (verify_authorization now token required_level s) \<longleftrightarrow>
     (\<exists>sess. session_tokens s token = Some sess \<and> \<not> now > expiry sess \<and>
        dict_get level_hierarchy (level sess) 0 \<ge> dict_get level_hierarchy required_level 0)"
  by (auto simp add: verify_authorization_def dest: minted_nonempty split: option.splits)

lemma verify_absent:
  "session_tokens s token = None \<Longrightarrow> verify_authorization now token r s = (False, s)"
  by (simp add: verify_authorization_def)

lemma verify_keeps_absent:
  "session_tokens s token = None \<Longrightarrow>
   session_tokens (snd (verify_authorization now' token' r' s)) token = None"
  by (simp add: verify_authorization_def split: option.splits)

lemma verify_all_absent:
  "session_tokens s token = None \<Longrightarrow>
   session_tokens (snd (verify_all calls s)) token = None \<and>
   length (fst (verify_all calls s)) = length calls \<and>
   (\<forall>i < length calls. fst (snd (calls ! i)) = token \<longrightarrow> \<not> fst (verify_all calls s) ! i)"
proof (induction calls arbitrary: s)
  case Nil
  then show ?case by simp
next
  case (Cons call calls)
  obtain now' token' r' where call: "call = (now', token', r')" by (cases call) auto
  let ?s' = "snd (verify_authorization now' token' r' s)"
  have abs': "session_tokens ?s' token = None"
    using Cons.prems by (rule verify_keeps_absent)
  note IH = Cons.IH[OF abs']
  have first: "token' = token \<Longrightarrow> \<not> fst (verify_authorization now' token' r' s)"
    using Cons.prems by (simp add: verify_absent)
  show ?case
    using IH first
    by (auto simp add: call split: prod.splits simp: nth_Cons split: nat.splits)
qed

lemma verify_expired:
  assumes "tokens_minted s" "session_tokens s token = Some sess" "now > expiry sess"
  shows "verify_authorization now token r s
           = (False, s\<lparr>session_tokens := (session_tokens s)(token := None)\<rparr>)"
  using assms minted_nonempty[OF assms(1,2)] by (simp add: verify_authorization_def)

lemma demo_generate:
  "generate_auth_token demo_env 0 (str ''user'') (str ''research'') 1 init_policy_state =
     (replicate 32 48,
      init_policy_state\<lparr>session_tokens :=
        [replicate 32 48 \<mapsto> \<lparr>user_id = str ''user'', level = str ''research'', expiry = 3600000000\<rparr>]\<rparr>)"
proof -
  have h: "take 32 (hexdigest 64 0) = replicate 32 48"
    by (simp add: hexdigest_def hex_digit_def take_map list_eq_iff_nth_eq)
  have e: "utf8_encodable (str ''user'' @ str '':'' @ str ''research'' @ str '':'' @ str ''1970-01-01T00:00:00'')"
    by (simp add: utf8_encodable_def str_def)
  have a: "add_hours 0 1 = Some 3600000000"
    by (simp add: add_hours_def datetime_min_def datetime_max_def)
  show ?thesis
    by (simp add: generate_auth_token_def demo_env_def h e a init_policy_state_def Let_def)
qed

lemma demo_token_eq: "demo_token = replicate 32 48"
  by (simp add: demo_token_def demo_generate)

lemma demo_session:
  "session_tokens demo_state demo_token =
     Some \<lparr>user_id = str ''user'', level = str ''research'', expiry = 3600000000\<rparr>"
  by (simp add: demo_state_def demo_token_def demo_generate)

lemma demo_minted: "tokens_minted demo_state"
  unfolding demo_state_def by (rule tokens_minted_generate[OF tokens_minted_init])

text \<open>
  C9. For a token of the session table that has not expired, \<open>verify_authorization\<close>
  returns true for every required level outside the four level names: such a level has
  rank 0 (as an unknown token level has), so even a token of level \<open>safe\<close> passes.
\<close>

theorem unknown_required_level_authorized:
  assumes "tokens_minted s" and "session_tokens s token = Some sess"
    and "\<not> now > expiry sess" and "R \<notin> set level_names"
  shows "dict_get level_hierarchy R 0 = 0 \<and> fst (verify_authorization now token R s)"
  using assms by (simp add: verify_authorization_iff level_rank_unknown)

theorem unknown_required_level_authorized_witness:
  "tokens_minted demo_state
   \<and> session_tokens demo_state demo_token
       = Some \<lparr>user_id = str ''user'', level = str ''research'', expiry = 3600000000\<rparr>
   \<and> \<not> (5 :: int) > 3600000000
   \<and> str ''admin'' \<notin> set level_names
   \<and> dict_get level_hierarchy (str ''admin'') 0 = 0
   \<and> fst (verify_authorization 5 demo_token (str ''admin'') demo_state)"
proof -
  have l: "str ''admin'' \<notin> set level_names" by (simp add: level_names_set)
  have t: "\<not> (5 :: int) > expiry \<lparr>user_id = str ''user'', level = str ''research'', expiry = 3600000000\<rparr>"
    by simp
  show ?thesis
    using unknown_required_level_authorized[OF demo_minted demo_session t l] demo_minted demo_session l
    by simp
qed

text \<open>
  C3, amended. \<open>verify_authorization(token, required_level)\<close> returns true if and only
  if the token is in the session table, the clock has not passed its expiry (a token is
  still accepted at the instant of its expiry), and the rank of its level is at least the
  rank of the required level; so a research token authorizes \<open>educational\<close> and not
  \<open>unrestricted\<close>. For a token whose expiry has passed, the call removes it from the
  table and returns false, and so does every later call made for it.
\<close>

theorem verify_authorization_correct:
  assumes "tokens_minted s"
  shows "(fst (verify_authorization now token required_level s) \<longleftrightarrow>
           (\<exists>sess. session_tokens s token = Some sess \<and> \<not> now > expiry sess \<and>
              dict_get level_hierarchy (level sess) 0
                \<ge> dict_get level_hierarchy required_level 0))
       \<and> (\<forall>sess. session_tokens s token = Some sess \<and> level sess = str ''research''
                   \<and> \<not> now > expiry sess \<longrightarrow>
             fst (verify_authorization now token (str ''educational'') s) \<and>
             \<not> fst (verify_authorization now token (str ''unrestricted'') s))
       \<and> (\<forall>sess. session_tokens s token = Some sess \<and> now > expiry sess \<longrightarrow>
             verify_authorization now token required_level s
               = (False, s\<lparr>session_tokens := (session_tokens s)(token := None)\<rparr>) \<and>
             (\<forall>calls.
                session_tokens
                  (snd (verify_all calls (snd (verify_authorization now token required_level s))))
                  token = None \<and>
                (\<forall>i < length calls. fst (snd (calls ! i)) = token \<longrightarrow>
                   \<not> fst (verify_all calls
                           (snd (verify_authorization now token required_level s))) ! i)))"
proof (intro conjI allI impI)
  show "fst (verify_authorization now token required_level s) \<longleftrightarrow>
           (\<exists>sess. session_tokens s token = Some sess \<and> \<not> now > expiry sess \<and>
              dict_get level_hierarchy (level sess) 0
                \<ge> dict_get level_hierarchy required_level 0)"
    using assms by (rule verify_authorization_iff)
next
  fix sess
  assume a: "session_tokens s token = Some sess \<and> level sess = str ''research''
                   \<and> \<not> now > expiry sess"
  then show "fst (verify_authorization now token (str ''educational'') s)"
    using assms by (simp add: verify_authorization_iff)
  from a show "\<not> fst (verify_authorization now token (str ''unrestricted'') s)"
    using assms by (simp add: verify_authorization_iff)
next
  fix sess
  assume a: "session_tokens s token = Some sess \<and> now > expiry sess"
  then have v: "verify_authorization now token required_level s
               = (False, s\<lparr>session_tokens := (session_tokens s)(token := None)\<rparr>)"
    using assms by (simp add: verify_expired)
  then show "verify_authorization now token required_level s
               = (False, s\<lparr>session_tokens := (session_tokens s)(token := None)\<rparr>)" .
  have abs: "session_tokens (snd (verify_authorization now token required_level s)) token = None"
    by (simp add: v)
  fix calls
  show "session_tokens
          (snd (verify_all calls (snd (verify_authorization now token required_level s))))
          token = None"
    using verify_all_absent[OF abs] by blast
  fix i
  assume "i < length calls" "fst (snd (calls ! i)) = token"
  then show "\<not> fst (verify_all calls
                           (snd (verify_authorization now token required_level s))) ! i"
    using verify_all_absent[OF abs, of calls] by blast
qed

theorem verify_authorization_correct_witness:
  "tokens_minted demo_state
   \<and> session_tokens demo_state demo_token
       = Some \<lparr>user_id = str ''user'', level = str ''research'', expiry = 3600000000\<rparr>
   \<and> fst (verify_authorization 5 demo_token (str ''educational'') demo_state)
   \<and> \<not> fst (verify_authorization 5 demo_token (str ''unrestricted'') demo_state)
   \<and> verify_authorization 3600000001 demo_token (str ''safe'') demo_state
       = (False, demo_state\<lparr>session_tokens := (session_tokens demo_state)(demo_token := None)\<rparr>)
   \<and> fst (verify_all [(3600000002, demo_token, str ''safe''), (7, demo_token, str ''safe'')]
            (snd (verify_authorization 3600000001 demo_token (str ''safe'') demo_state)))
       = [False, False]"
proof -
  note a = verify_authorization_correct[OF demo_minted, of 5 demo_token "str ''safe''"]
  note b = verify_authorization_correct[OF demo_minted, of 3600000001 demo_token "str ''safe''"]
  have c: "verify_authorization 3600000001 demo_token (str ''safe'') demo_state
       = (False, demo_state\<lparr>session_tokens := (session_tokens demo_state)(demo_token := None)\<rparr>)"
    using b demo_session by simp
  have d: "fst (verify_all [(3600000002, demo_token, str ''safe''), (7, demo_token, str ''safe'')]
            (snd (verify_authorization 3600000001 demo_token (str ''safe'') demo_state)))
       = [False, False]"
    unfolding c by (simp add: verify_authorization_def demo_token_eq)
  show ?thesis
    using a c d demo_minted demo_session by simp
qed

text \<open>
  C3 as stated fails at the instant of expiry: the expiry is no longer in the future, and
  the token is accepted.
\<close>

theorem verify_authorization_at_expiry:
  "fst (verify_authorization 3600000000 demo_token (str ''safe'') demo_state)
   \<and> expiry (the (session_tokens demo_state demo_token)) = 3600000000
   \<and> \<not> (3600000000 < expiry (the (session_tokens demo_state demo_token)))"
  by (simp add: verify_authorization_iff[OF demo_minted] demo_session)


section \<open>Evaluation\<close>

lemma blank_iff: "blank content \<longleftrightarrow> list_all isspace content"
  by (cases content) (simp_all add: blank_def strip_empty_iff)

lemma check_thresholds_override:
  "check_thresholds pol True scores (vs, ok) = (vs, ok)"
  by (induction scores arbitrary: vs ok) auto

lemma check_thresholds_plain:
  "check_thresholds pol False scores (vs, ok) =
     (vs @ map (\<lambda>(c, sc). Exceeds c sc (dict_get pol c 0))
             (filter (\<lambda>(c, sc). sc > dict_get pol c 0) scores),
      ok \<and> filter (\<lambda>(c, sc). sc > dict_get pol c 0) scores = [])"
proof (induction scores arbitrary: vs ok)
  case Nil
  then show ?case by simp
next
  case (Cons x scores)
  obtain c sc where x: "x = (c, sc)" by (cases x) auto
  show ?case
  proof (cases "sc > dict_get pol c 0")
    case True
    then show ?thesis
      using Cons.IH[of "vs @ [Exceeds c sc (dict_get pol c 0)]" False] by (simp add: x)
  next
    case False
    then show ?thesis
      using Cons.IH[of vs ok] by (simp add: x)
  qed
qed

lemma scan_overrides_compile:
  assumes "list_all (\<lambda>(p, info). unexpired now info \<longrightarrow> re_search E p content \<noteq> None) ovs"
  shows "scan_overrides E now content ovs ex \<noteq> Raised \<and>
         (scan_overrides E now content ovs ex = Matched \<longleftrightarrow>
            list_ex (\<lambda>(p, info). unexpired now info \<and> re_search E p content = Some True) ovs)"
  using assms
proof (induction ovs arbitrary: ex)
  case Nil
  then show ?case by simp
next
  case (Cons x ovs)
  obtain p info where x: "x = (p, info)" by (cases x) auto
  from Cons.prems have rest:
    "list_all (\<lambda>(p, info). unexpired now info \<longrightarrow> re_search E p content \<noteq> None) ovs"
    by simp
  note IH = Cons.IH[OF rest]
  show ?case
  proof (cases "now > ov_expiry info")
    case True
    then show ?thesis using IH[of "ex @ [p]"] by (simp add: x unexpired_def)
  next
    case False
    then obtain b where b: "re_search E p content = Some b"
      using Cons.prems by (auto simp add: x unexpired_def)
    show ?thesis
      using False b IH[of ex] by (cases b) (simp_all add: x unexpired_def)
  qed
qed

lemma check_overrides_compile:
  assumes "overrides_compile E now content s"
  shows "fst (check_temporary_overrides E now content s) = override_matches E now content s"
  using scan_overrides_compile[of now E content "temporary_overrides s" "[]"] assms
  by (auto simp add: check_temporary_overrides_def override_matches_def overrides_compile_def
        split: scan.splits)

lemma content_evaluations_check [simp]:
  "content_evaluations (snd (check_temporary_overrides E now content s)) = content_evaluations s"
  by (simp add: check_temporary_overrides_def split: scan.splits)

text \<open>The result of a call that passes the guard and the encoding.\<close>

lemma evaluate_content_normal:
  assumes "\<not> blank content" "utf8_encodable content"
  shows "fst (evaluate_content E now content ctx s) =
     (let ov = fst (check_temporary_overrides E now content s);
          scores = map (\<lambda>c. (c, category_score E content c)) detector_names;
          hits = (if ov then []
                  else filter (\<lambda>(c, sc). sc > active_threshold s c) scores)
      in \<lparr>allowed = (hits = []), policy_level = current_level s, category_scores = scores,
           violations = map (\<lambda>(c, sc). Exceeds c sc (active_threshold s c)) hits,
           override_applied = ov, content_hash = md5_hexdigest E content,
           evaluation_time = now,
           block_reason = (if hits = [] then None
              else Some (Joined (map (\<lambda>(c, sc). Exceeds c sc (active_threshold s c)) hits)))\<rparr>)"
proof (cases "fst (check_temporary_overrides E now content s)")
  case True
  then obtain s1 where c: "check_temporary_overrides E now content s = (True, s1)"
    by (cases "check_temporary_overrides E now content s") auto
  show ?thesis
    using assms
    by (simp add: evaluate_content_def blank_def Let_def c check_thresholds_override)
next
  case False
  then obtain s1 where c: "check_temporary_overrides E now content s = (False, s1)"
    by (cases "check_temporary_overrides E now content s") auto
  have th: "(\<lambda>(c, sc). sc > dict_get (policies_get (current_level s)) c 0)
            = (\<lambda>(c, sc). sc > active_threshold s c)"
       "(\<lambda>(c, sc). Exceeds c sc (dict_get (policies_get (current_level s)) c 0))
            = (\<lambda>(c, sc). Exceeds c sc (active_threshold s c))"
    by (simp_all add: active_threshold_def)
  show ?thesis
    using assms
    by (simp add: evaluate_content_def blank_def Let_def c check_thresholds_plain th)
qed

lemma evaluate_content_normal_state:
  assumes "\<not> blank content" "utf8_encodable content"
  shows "snd (evaluate_content E now content ctx s) =
     log_content_evaluation E (md5_hexdigest E content) (fst (evaluate_content E now content ctx s))
       ctx (snd (check_temporary_overrides E now content s))"
  using assms
  by (auto simp add: evaluate_content_def blank_def Let_def split: prod.splits)

lemma evaluate_content_blank:
  assumes "blank content"
  shows "evaluate_content E now content ctx s =
     (\<lparr>allowed = False, policy_level = current_level s, category_scores = [],
              violations = [Empty_content], override_applied = False, content_hash = [],
              evaluation_time = now, block_reason = Some Empty_or_invalid_content\<rparr>, s)"
  using assms by (simp add: evaluate_content_def blank_def)

lemma evaluate_content_raises:
  assumes "\<not> blank content" "\<not> utf8_encodable content"
  shows "evaluate_content E now content ctx s =
     (\<lparr>allowed = False, policy_level = current_level s, category_scores = [],
              violations = [Evaluation_error], override_applied = False, content_hash = [],
              evaluation_time = now, block_reason = Some System_error_during_evaluation\<rparr>, s)"
  using assms by (simp add: evaluate_content_def blank_def)

lemma some_score_exceeds_iff:
  "some_score_exceeds E s content \<longleftrightarrow>
     (\<exists>c \<in> set detector_names. category_score E content c > active_threshold s c)"
  by (simp add: some_score_exceeds_def list_ex_iff)

text \<open>
  C2, amended. For content that is neither empty nor whitespace-only and that encodes as
  UTF-8, evaluated while every unexpired override pattern compiles: the result is
  not-allowed if and only if some category score strictly exceeds that category's
  threshold at the active level and no unexpired override pattern matches the content.
  Every violation recorded is of a score strictly above its threshold, so a score equal
  to its threshold produces none; and one matching unexpired override yields
  \<open>allowed = True\<close> with no violation at all.
\<close>

theorem evaluate_content_decision:
  assumes "\<not> blank content" and "utf8_encodable content"
    and "overrides_compile E now content s"
  shows "(\<not> allowed (fst (evaluate_content E now content ctx s)) \<longleftrightarrow>
            some_score_exceeds E s content \<and> \<not> override_matches E now content s)
       \<and> (\<forall>c sc t. Exceeds c sc t \<in> set (violations (fst (evaluate_content E now content ctx s)))
             \<longrightarrow> sc = category_score E content c \<and> t = active_threshold s c \<and> t < sc)
       \<and> (\<forall>c \<in> set detector_names. \<forall>sc t.
             category_score E content c \<le> active_threshold s c \<longrightarrow>
             Exceeds c sc t \<notin> set (violations (fst (evaluate_content E now content ctx s))))
       \<and> (override_matches E now content s \<longrightarrow>
             allowed (fst (evaluate_content E now content ctx s)) \<and>
             override_applied (fst (evaluate_content E now content ctx s)) \<and>
             violations (fst (evaluate_content E now content ctx s)) = [])"
  using assms(3)
  unfolding evaluate_content_normal[OF assms(1,2)] some_score_exceeds_iff
  by (auto simp add: Let_def check_overrides_compile filter_empty_conv)

text \<open>
  C1, amended. A call of \<open>evaluate_content\<close> on content that is neither empty nor
  whitespace-only, that raises nothing and whose INSERT succeeds appends exactly one row
  to \<open>content_evaluations\<close>, the row of the result it returns. The INSERT succeeds only
  when the level is a string, that is after \<open>set_policy_level\<close>, and the database takes
  the row. Empty or whitespace-only content and an exception that reaches the handler of
  \<open>evaluate_content\<close> give a not-allowed result that carries its error marker.
\<close>

theorem evaluate_content_audit:
  "(\<not> blank content \<and> utf8_encodable content \<and> insert_succeeds E s \<longrightarrow>
      (\<exists>row. content_evaluations (snd (evaluate_content E now content ctx s))
                = content_evaluations s @ [row]
              \<and> row_final_decision row = allowed (fst (evaluate_content E now content ctx s))
              \<and> row_content_hash row = content_hash (fst (evaluate_content E now content ctx s))
              \<and> row_category_scores row
                  = category_scores (fst (evaluate_content E now content ctx s))
              \<and> row_block_reason row = block_reason (fst (evaluate_content E now content ctx s))
              \<and> row_override_applied row
                  = override_applied (fst (evaluate_content E now content ctx s))
              \<and> Level_name (row_policy_level row) = current_level s
              \<and> row_user_context row = ctx))
   \<and> (blank content \<longrightarrow>
        \<not> allowed (fst (evaluate_content E now content ctx s)) \<and>
        violations (fst (evaluate_content E now content ctx s)) = [Empty_content] \<and>
        block_reason (fst (evaluate_content E now content ctx s)) = Some Empty_or_invalid_content)
   \<and> (\<not> blank content \<and> \<not> utf8_encodable content \<longrightarrow>
        \<not> allowed (fst (evaluate_content E now content ctx s)) \<and>
        violations (fst (evaluate_content E now content ctx s)) = [Evaluation_error] \<and>
        block_reason (fst (evaluate_content E now content ctx s))
          = Some System_error_during_evaluation)"
proof (intro conjI impI)
  assume a: "\<not> blank content \<and> utf8_encodable content \<and> insert_succeeds E s"
  then have n: "\<not> blank content" "utf8_encodable content" and db: "insert_succeeds E s"
    by auto
  show "\<exists>row. content_evaluations (snd (evaluate_content E now content ctx s))
                = content_evaluations s @ [row]
              \<and> row_final_decision row = allowed (fst (evaluate_content E now content ctx s))
              \<and> row_content_hash row = content_hash (fst (evaluate_content E now content ctx s))
              \<and> row_category_scores row
                  = category_scores (fst (evaluate_content E now content ctx s))
              \<and> row_block_reason row = block_reason (fst (evaluate_content E now content ctx s))
              \<and> row_override_applied row
                  = override_applied (fst (evaluate_content E now content ctx s))
              \<and> Level_name (row_policy_level row) = current_level s
              \<and> row_user_context row = ctx"
    unfolding evaluate_content_normal_state[OF n]
    using db
    by (simp add: log_content_evaluation_def evaluate_content_normal[OF n] Let_def
          insert_succeeds_def split: level_attr.splits)
qed (simp_all add: evaluate_content_blank evaluate_content_raises)



section \<open>Evaluation at concrete inputs\<close>

lemma example_texts [simp]:
  "\<not> blank (str ''how to kill'')" "utf8_encodable (str ''how to kill'')"
  "blank (str '' '')" "blank []" "\<not> blank [55296]" "\<not> utf8_encodable [55296]"
  by (simp_all add: blank_iff utf8_encodable_def str_def isspace_def)

lemma demo_re_search [simp]:
  "re_search demo_env (str ''kill'') (str ''how to kill'') = Some True"
  "re_search demo_env (str ''('') c = None"
  by (simp_all add: demo_env_def) (simp add: str_def)

lemma demo_add_hours: "add_hours 0 1 = Some 3600000000"
  by (simp add: add_hours_def datetime_min_def datetime_max_def)

lemma demo_token_nonempty [simp]: "demo_token \<noteq> []"
  by (simp add: demo_token_eq)

lemma take_demo_token [simp]: "take 8 demo_token = replicate 8 48"
  by (simp add: demo_token_eq)

lemma demo_state_fields [simp]:
  "current_level demo_state = Level_member SAFE"
  "temporary_overrides demo_state = []"
  "content_evaluations demo_state = []"
  unfolding demo_state_def demo_generate snd_conv
  by (simp_all add: init_policy_state_def)

lemma demo_verify_research:
  "verify_authorization 0 demo_token (str ''research'') s = (True, s)"
  if "session_tokens s = session_tokens demo_state"
  using that by (simp add: verify_authorization_def demo_session)

lemma override_state_eq:
  "override_state = demo_state\<lparr>temporary_overrides :=
      [(str ''kill'', \<lparr>ov_expiry = 3600000000, ov_reason = str ''test'',
                       ov_created_by = replicate 8 48\<rparr>)]\<rparr>"
  unfolding override_state_def add_temporary_override_def demo_verify_research[OF refl]
  by (simp add: demo_add_hours dict_set_def demo_env_def)

lemma bad_override_state_eq:
  "bad_override_state = demo_state\<lparr>temporary_overrides :=
      [(str ''('', \<lparr>ov_expiry = 3600000000, ov_reason = str ''test'',
                       ov_created_by = replicate 8 48\<rparr>),
       (str ''kill'', \<lparr>ov_expiry = 3600000000, ov_reason = str ''test'',
                       ov_created_by = replicate 8 48\<rparr>)]\<rparr>"
proof -
  have 1: "snd (add_temporary_override demo_env 0 (str ''('') 1 (str ''test'') demo_token demo_state)
    = demo_state\<lparr>temporary_overrides :=
      [(str ''('', \<lparr>ov_expiry = 3600000000, ov_reason = str ''test'',
                       ov_created_by = replicate 8 48\<rparr>)]\<rparr>"
    unfolding add_temporary_override_def demo_verify_research[OF refl]
    by (simp add: demo_add_hours dict_set_def demo_env_def)
  show ?thesis
    unfolding bad_override_state_def 1
    by (simp add: add_temporary_override_def demo_verify_research demo_add_hours dict_set_def)
qed

lemma policies_get_safe [simp]:
  "policies_get (Level_member m) = safe_policy"
  "policies_get (Level_name (str ''safe'')) = safe_policy"
  by (simp_all add: policies_get_def dict_get_def policies_def)

lemma active_threshold_safe:
  "policies_get (current_level s) = safe_policy
     \<Longrightarrow> active_threshold s c = dict_get safe_policy c 0"
  by (simp add: active_threshold_def)

lemma demo_category_score:
  "category_score demo_env (str ''how to kill'') c = (if c = str ''violence'' then 6/10 else 0)"
  "category_score demo_env (str '' '') c = 0"
  by (simp_all add: category_score_def demo_env_def)

lemma demo_exceeds:
  "policies_get (current_level s) = safe_policy
     \<Longrightarrow> some_score_exceeds demo_env s (str ''how to kill'')"
  "policies_get (current_level s) = safe_policy
     \<Longrightarrow> \<not> some_score_exceeds demo_env s (str '' '')"
  by (simp_all add: some_score_exceeds_def detector_names_def demo_category_score
        active_threshold_safe dict_get_def safe_policy_def)

lemma demo_override_facts:
  "overrides_compile demo_env 5 (str ''how to kill'') override_state"
  "override_matches demo_env 5 (str ''how to kill'') override_state"
  "overrides_compile demo_env 5 c demo_state"
  "\<not> override_matches demo_env 5 c demo_state"
  "override_matches demo_env 5 (str ''how to kill'') bad_override_state"
  "\<not> overrides_compile demo_env 5 (str ''how to kill'') bad_override_state"
  by (simp_all add: overrides_compile_def override_matches_def override_state_eq
        bad_override_state_eq unexpired_def del: not_None_eq)

lemma override_state_level [simp]:
  "current_level override_state = Level_member SAFE"
  "current_level bad_override_state = Level_member SAFE"
  by (simp_all add: override_state_eq bad_override_state_eq)

lemma safe_state_eq:
  "safe_state = demo_state\<lparr>current_level := Level_name (str ''safe'')\<rparr>"
  by (simp add: safe_state_def set_policy_level_def policies_def str_def)

lemma safe_state_fields [simp]:
  "current_level safe_state = Level_name (str ''safe'')"
  "temporary_overrides safe_state = []"
  "content_evaluations safe_state = []"
  by (simp_all add: safe_state_eq)

lemma safe_state_insert: "insert_succeeds demo_env safe_state"
  by (simp add: insert_succeeds_def demo_env_def)



theorem evaluate_content_decision_witness:
  "\<not> blank (str ''how to kill'') \<and> utf8_encodable (str ''how to kill'')
   \<and> overrides_compile demo_env 5 (str ''how to kill'') override_state
   \<and> override_matches demo_env 5 (str ''how to kill'') override_state
   \<and> some_score_exceeds demo_env override_state (str ''how to kill'')
   \<and> allowed (fst (evaluate_content demo_env 5 (str ''how to kill'') None override_state))
   \<and> violations (fst (evaluate_content demo_env 5 (str ''how to kill'') None override_state)) = []
   \<and> overrides_compile demo_env 5 (str ''how to kill'') demo_state
   \<and> \<not> override_matches demo_env 5 (str ''how to kill'') demo_state
   \<and> some_score_exceeds demo_env demo_state (str ''how to kill'')
   \<and> \<not> allowed (fst (evaluate_content demo_env 5 (str ''how to kill'') None demo_state))
   \<and> str ''adult'' \<in> set detector_names
   \<and> category_score demo_env (str ''how to kill'') (str ''adult'')
        = active_threshold demo_state (str ''adult'')
   \<and> Exceeds (str ''adult'') 0 0
        \<notin> set (violations (fst (evaluate_content demo_env 5 (str ''how to kill'') None demo_state)))"
proof -
  note a = evaluate_content_decision[OF example_texts(1,2) demo_override_facts(1), of None]
  note b = evaluate_content_decision[OF example_texts(1,2) demo_override_facts(3), of None]
  have c: "str ''adult'' \<in> set detector_names" by (simp add: detector_names_def)
  have d: "category_score demo_env (str ''how to kill'') (str ''adult'')
        = active_threshold demo_state (str ''adult'')"
    by (simp add: demo_category_score active_threshold_safe dict_get_def safe_policy_def)
  have e1: "some_score_exceeds demo_env override_state (str ''how to kill'')"
    by (rule demo_exceeds(1)) simp
  have e2: "some_score_exceeds demo_env demo_state (str ''how to kill'')"
    by (rule demo_exceeds(1)) simp
  have a1: "allowed (fst (evaluate_content demo_env 5 (str ''how to kill'') None override_state))"
    and a2: "violations (fst (evaluate_content demo_env 5 (str ''how to kill'') None override_state)) = []"
    using a demo_override_facts(2) by blast+
  have b1: "\<not> allowed (fst (evaluate_content demo_env 5 (str ''how to kill'') None demo_state))"
    using b e2 demo_override_facts(4) by blast
  have b2: "Exceeds (str ''adult'') 0 0
        \<notin> set (violations (fst (evaluate_content demo_env 5 (str ''how to kill'') None demo_state)))"
    using b c d by (metis order_refl)
  show ?thesis
    by (intro conjI example_texts demo_override_facts e1 e2 a1 a2 b1 b2 c d)
qed


text \<open>
  C2 as stated fails on content that is not empty but consists of whitespace: no score
  exceeds its threshold, and the result is not-allowed.
\<close>

theorem whitespace_content_blocked:
  "str '' '' \<noteq> []
   \<and> \<not> allowed (fst (evaluate_content demo_env 5 (str '' '') None demo_state))
   \<and> \<not> some_score_exceeds demo_env demo_state (str '' '')"
proof -
  have "\<not> some_score_exceeds demo_env demo_state (str '' '')"
    by (rule demo_exceeds(2)) simp
  then show ?thesis
    by (simp add: evaluate_content_blank)
qed

text \<open>
  An unexpired override that matches does not apply when a pattern entered before it
  does not compile: the handler of \<open>check_temporary_overrides\<close> returns \<open>False\<close>.
\<close>

lemma override_behind_invalid_pattern:
  "override_matches demo_env 5 (str ''how to kill'') bad_override_state
   \<and> \<not> override_applied
         (fst (evaluate_content demo_env 5 (str ''how to kill'') None bad_override_state))
   \<and> \<not> allowed (fst (evaluate_content demo_env 5 (str ''how to kill'') None bad_override_state))"
proof -
  have c: "fst (check_temporary_overrides demo_env 5 (str ''how to kill'') bad_override_state)
          = False"
    by (simp add: check_temporary_overrides_def bad_override_state_eq)
  have e: "some_score_exceeds demo_env bad_override_state (str ''how to kill'')"
    by (rule demo_exceeds(1)) simp
  have n: "fst (evaluate_content demo_env 5 (str ''how to kill'') None bad_override_state) =
     (let scores = map (\<lambda>c. (c, category_score demo_env (str ''how to kill'') c)) detector_names;
          hits = filter (\<lambda>(c, sc). sc > active_threshold bad_override_state c) scores
      in \<lparr>allowed = (hits = []), policy_level = current_level bad_override_state,
           category_scores = scores,
           violations = map (\<lambda>(c, sc). Exceeds c sc (active_threshold bad_override_state c)) hits,
           override_applied = False,
           content_hash = md5_hexdigest demo_env (str ''how to kill''),
           evaluation_time = 5,
           block_reason = (if hits = [] then None
              else Some (Joined (map (\<lambda>(c, sc). Exceeds c sc (active_threshold bad_override_state c)) hits)))\<rparr>)"
    unfolding evaluate_content_normal[OF example_texts(1,2)] c by (simp add: Let_def)
  have h: "filter (\<lambda>(c, sc). sc > active_threshold bad_override_state c)
             (map (\<lambda>c. (c, category_score demo_env (str ''how to kill'') c)) detector_names) \<noteq> []"
    using e by (auto simp add: some_score_exceeds_def list_ex_iff filter_empty_conv)
  show ?thesis
    unfolding n using h by (simp add: Let_def demo_override_facts(5))
qed


theorem evaluate_content_audit_witness:
  "\<not> blank (str ''how to kill'') \<and> utf8_encodable (str ''how to kill'')
   \<and> insert_succeeds demo_env safe_state
   \<and> length (content_evaluations
               (snd (evaluate_content demo_env 5 (str ''how to kill'') None safe_state)))
       = Suc (length (content_evaluations safe_state))
   \<and> blank (str '' '')
   \<and> \<not> allowed (fst (evaluate_content demo_env 5 (str '' '') None safe_state))
   \<and> violations (fst (evaluate_content demo_env 5 (str '' '') None safe_state))
       = [Empty_content]
   \<and> \<not> blank [55296] \<and> \<not> utf8_encodable [55296]
   \<and> \<not> allowed (fst (evaluate_content demo_env 5 [55296] None safe_state))
   \<and> violations (fst (evaluate_content demo_env 5 [55296] None safe_state))
       = [Evaluation_error]"
proof -
  note db = safe_state_insert
  note a = evaluate_content_audit[of "str ''how to kill''" demo_env safe_state 5 None]
  note b = evaluate_content_audit[of "str '' ''" demo_env safe_state 5 None]
  note c = evaluate_content_audit[of "[55296]" demo_env safe_state 5 None]
  from a db example_texts(1,2) obtain row where
    "content_evaluations (snd (evaluate_content demo_env 5 (str ''how to kill'') None safe_state))
       = content_evaluations safe_state @ [row]"
    by blast
  then have a1: "length (content_evaluations
               (snd (evaluate_content demo_env 5 (str ''how to kill'') None safe_state)))
       = Suc (length (content_evaluations safe_state))"
    by simp
  have b1: "\<not> allowed (fst (evaluate_content demo_env 5 (str '' '') None safe_state))"
    and b2: "violations (fst (evaluate_content demo_env 5 (str '' '') None safe_state))
       = [Empty_content]"
    using b example_texts(3) by blast+
  have c1: "\<not> allowed (fst (evaluate_content demo_env 5 [55296] None safe_state))"
    and c2: "violations (fst (evaluate_content demo_env 5 [55296] None safe_state))
       = [Evaluation_error]"
    using c example_texts(5,6) by blast+
  show ?thesis
    by (intro conjI example_texts db a1 b1 b2 c1 c2)
qed

text \<open>
  C1 as stated fails on empty content: the call returns at the guard and appends no row.
  The same holds for content that cannot be encoded, for an INSERT that the database
  refuses, and for every evaluation of an engine whose level was never set: its level is
  still the member \<open>ContentLevel.SAFE\<close>, which the INSERT cannot bind.
\<close>

theorem empty_content_not_logged:
  "content_evaluations (snd (evaluate_content demo_env 5 [] None demo_state))
     = content_evaluations demo_state
   \<and> length (content_evaluations (snd (evaluate_content demo_env 5 [] None demo_state)))
     \<noteq> length (content_evaluations demo_state) + 1"
  by (simp add: evaluate_content_blank)

lemma unencodable_content_not_logged:
  "content_evaluations (snd (evaluate_content demo_env 5 [55296] None safe_state))
     = content_evaluations safe_state"
  by (simp add: evaluate_content_raises)

lemma failed_insert_not_logged:
  "content_evaluations
     (snd (evaluate_content (demo_env\<lparr>db_insert_ok := False\<rparr>) 5 (str ''how to kill'') None
             safe_state))
     = content_evaluations safe_state"
  by (simp add: evaluate_content_normal_state log_content_evaluation_def
        evaluate_content_normal Let_def)

lemma fresh_engine_not_logged:
  "db_insert_ok demo_env
   \<and> content_evaluations
       (snd (evaluate_content demo_env 5 (str ''how to kill'') None init_policy_state))
     = content_evaluations init_policy_state
   \<and> content_evaluations
       (snd (evaluate_content demo_env 5 (str ''how to kill'') None demo_state))
     = content_evaluations demo_state"
  by (simp add: evaluate_content_normal_state log_content_evaluation_def
        evaluate_content_normal Let_def demo_env_def init_policy_state_def)


section \<open>Trusted domains\<close>

lemma is_trusted_domain_parse_error:
  "urlparse E u = None \<Longrightarrow> is_trusted_domain E s u = (False, 0, Error_parsing_domain)"
  by (simp add: is_trusted_domain_def)

lemma is_trusted_domain_blocked:
  assumes "urlparse E u = Some (scheme, netloc)"
    and "\<exists>b \<in> set (blocked_domains s). contains b (strip_www (str_lower E netloc))"
  shows "is_trusted_domain E s u
           = (False, 0, Domain_is_blocked (strip_www (str_lower E netloc)))"
  using assms by (simp add: is_trusted_domain_def list_ex_iff)

lemma is_trusted_domain_trusted:
  assumes "urlparse E u = Some (scheme, netloc)"
    and "\<not> (\<exists>b \<in> set (blocked_domains s). contains b (strip_www (str_lower E netloc)))"
    and "i < length (trusted_domains s)"
    and "contains (fst (trusted_domains s ! i)) (strip_www (str_lower E netloc))"
    and "\<forall>j < i. \<not> contains (fst (trusted_domains s ! j)) (strip_www (str_lower E netloc))"
  shows "is_trusted_domain E s u
           = (True, trust (snd (trusted_domains s ! i)),
              Trusted_domain (domain_type (snd (trusted_domains s ! i))))"
proof -
  let ?d = "strip_www (str_lower E netloc)"
  let ?P = "\<lambda>(trusted_domain, info :: domain_info). contains trusted_domain ?d"
  have "find ?P (trusted_domains s) = Some (trusted_domains s ! i)"
    unfolding find_Some_iff using assms(3-5)
    by (intro exI[of _ i]) (auto simp add: case_prod_beta)
  then show ?thesis
    using assms(1,2)
    by (cases "trusted_domains s ! i") (simp add: is_trusted_domain_def list_ex_iff Let_def)
qed

lemma is_trusted_domain_unknown:
  assumes "urlparse E u = Some (scheme, netloc)"
    and "\<not> (\<exists>b \<in> set (blocked_domains s). contains b (strip_www (str_lower E netloc)))"
    and "\<not> (\<exists>t \<in> set (trusted_domains s). contains (fst t) (strip_www (str_lower E netloc)))"
  shows "is_trusted_domain E s u
           = (False, 2/10, Not_in_trusted_list (strip_www (str_lower E netloc)))"
proof -
  let ?d = "strip_www (str_lower E netloc)"
  have "find (\<lambda>(trusted_domain, info :: domain_info). contains trusted_domain ?d)
          (trusted_domains s) = None"
    unfolding find_None_iff using assms(3) by (auto simp add: case_prod_beta)
  then show ?thesis
    using assms(1,2) by (simp add: is_trusted_domain_def list_ex_iff Let_def)
qed

text \<open>
  C4, amended. For a URL that parses, \<open>is_trusted_domain\<close> strips a leading \<open>www.\<close> from
  the lower-case host; returns blocked with trust score 0.0 whenever a blocked domain
  occurs in the host, whatever the trusted table holds; otherwise returns trusted with
  the score of the first entry of the trusted table, in its order, whose name occurs
  anywhere in the host (a substring match, not a suffix match); otherwise returns
  not-trusted with the default score 0.2.
\<close>

theorem is_trusted_domain_correct:
  assumes "urlparse E u = Some (scheme, netloc)"
  shows "(startswith (str_lower E netloc) (str ''www.'')
            \<longrightarrow> strip_www (str_lower E netloc) = drop 4 (str_lower E netloc))
       \<and> (\<not> startswith (str_lower E netloc) (str ''www.'')
            \<longrightarrow> strip_www (str_lower E netloc) = str_lower E netloc)
       \<and> ((\<exists>b \<in> set (blocked_domains s). contains b (strip_www (str_lower E netloc)))
            \<longrightarrow> is_trusted_domain E s u
                  = (False, 0, Domain_is_blocked (strip_www (str_lower E netloc))))
       \<and> (\<not> (\<exists>b \<in> set (blocked_domains s). contains b (strip_www (str_lower E netloc)))
            \<longrightarrow> (\<forall>i < length (trusted_domains s).
                    contains (fst (trusted_domains s ! i)) (strip_www (str_lower E netloc)) \<and>
                    (\<forall>j < i. \<not> contains (fst (trusted_domains s ! j))
                                 (strip_www (str_lower E netloc)))
                    \<longrightarrow> is_trusted_domain E s u
                          = (True, trust (snd (trusted_domains s ! i)),
                             Trusted_domain (domain_type (snd (trusted_domains s ! i))))))
       \<and> (\<not> (\<exists>b \<in> set (blocked_domains s). contains b (strip_www (str_lower E netloc))) \<and>
          \<not> (\<exists>t \<in> set (trusted_domains s). contains (fst t) (strip_www (str_lower E netloc)))
            \<longrightarrow> is_trusted_domain E s u
                  = (False, 2/10, Not_in_trusted_list (strip_www (str_lower E netloc))))"
  using is_trusted_domain_blocked[OF assms] is_trusted_domain_trusted[OF assms]
    is_trusted_domain_unknown[OF assms]
  by (simp add: strip_www_def)


lemma ascii_lower_str [simp]:
  "ascii_lower (str ''en.wikipedia.org'') = str ''en.wikipedia.org''"
  "ascii_lower (str ''www.4chan.org'') = str ''www.4chan.org''"
  "ascii_lower (str ''gab.com.wikipedia.org'') = str ''gab.com.wikipedia.org''"
  "ascii_lower (str ''github.com.evil.example'') = str ''github.com.evil.example''"
  "ascii_lower (str ''example.com'') = str ''example.com''"
  "ascii_lower (str ''github.com'') = str ''github.com''"
  "ascii_lower (str ''stackoverflow.com'') = str ''stackoverflow.com''"
  by (simp_all add: ascii_lower_def str_def)

lemma demo_hosts [simp]:
  "strip_www (str ''en.wikipedia.org'') = str ''en.wikipedia.org''"
  "strip_www (str ''www.4chan.org'') = str ''4chan.org''"
  "strip_www (str ''gab.com.wikipedia.org'') = str ''gab.com.wikipedia.org''"
  "strip_www (str ''github.com.evil.example'') = str ''github.com.evil.example''"
  "strip_www (str ''example.com'') = str ''example.com''"
  "strip_www (str ''github.com'') = str ''github.com''"
  "strip_www (str ''stackoverflow.com'') = str ''stackoverflow.com''"
  by (simp_all add: strip_www_def str_def)

lemma demo_parse:
  "urlparse demo_web_env (str ''https://en.wikipedia.org/wiki/Cat'')
     = Some (str ''https'', str ''en.wikipedia.org'')"
  "urlparse demo_web_env (str ''https://www.4chan.org/b'')
     = Some (str ''https'', str ''www.4chan.org'')"
  "urlparse demo_web_env (str ''https://gab.com.wikipedia.org/'')
     = Some (str ''https'', str ''gab.com.wikipedia.org'')"
  "urlparse demo_web_env (str ''https://github.com.evil.example/x'')
     = Some (str ''https'', str ''github.com.evil.example'')"
  "urlparse demo_web_env (str ''https://example.com/'')
     = Some (str ''https'', str ''example.com'')"
  "urlparse demo_web_env (str ''https://github.com/search?q=cats'')
     = Some (str ''https'', str ''github.com'')"
  "urlparse demo_web_env (str ''https://stackoverflow.com/search?q=cats'')
     = Some (str ''https'', str ''stackoverflow.com'')"
  by (simp_all add: demo_web_env_def demo_urlparse_def)

lemma demo_lower [simp]: "str_lower demo_web_env = ascii_lower"
  by (simp add: demo_web_env_def)

lemma init_web_tables [simp]:
  "trusted_domains init_web_state = initial_trusted_domains"
  "blocked_domains init_web_state = initial_blocked_domains"
  by (simp_all add: init_web_state_def)

lemma demo_blocked:
  "list_ex (\<lambda>b. contains b (str ''4chan.org'')) initial_blocked_domains"
  "list_ex (\<lambda>b. contains b (str ''gab.com.wikipedia.org'')) initial_blocked_domains"
  "\<not> list_ex (\<lambda>b. contains b (str ''en.wikipedia.org'')) initial_blocked_domains"
  "\<not> list_ex (\<lambda>b. contains b (str ''github.com.evil.example'')) initial_blocked_domains"
  "\<not> list_ex (\<lambda>b. contains b (str ''example.com'')) initial_blocked_domains"
  "\<not> list_ex (\<lambda>b. contains b (str ''github.com'')) initial_blocked_domains"
  "\<not> list_ex (\<lambda>b. contains b (str ''stackoverflow.com'')) initial_blocked_domains"
  by (simp_all add: initial_blocked_domains_def str_def)


lemma demo_trusted:
  "contains (fst (initial_trusted_domains ! 0)) (str ''en.wikipedia.org'')"
  "snd (initial_trusted_domains ! 0)
     = \<lparr>domain_type = str ''encyclopedia'', trust = 9/10, rate_limit = 10\<rparr>"
  "\<not> list_ex (\<lambda>t. contains (fst t) (str ''example.com'')) initial_trusted_domains"
  by (simp_all add: initial_trusted_domains_def str_def)

lemma demo_trusted_evil:
  "find (\<lambda>(trusted_domain, info). contains trusted_domain (str ''github.com.evil.example''))
     initial_trusted_domains
     = Some (str ''github.com'',
             \<lparr>domain_type = str ''code_repository'', trust = 8/10, rate_limit = 15\<rparr>)"
  "find (\<lambda>(trusted_domain, info). endswith (str ''github.com.evil.example'') trusted_domain)
     initial_trusted_domains = None"
  by (simp_all add: initial_trusted_domains_def endswith_def) (simp_all add: str_def)

theorem is_trusted_domain_correct_witness:
  "urlparse demo_web_env (str ''https://www.4chan.org/b'')
     = Some (str ''https'', str ''www.4chan.org'')
   \<and> startswith (str_lower demo_web_env (str ''www.4chan.org'')) (str ''www.'')
   \<and> strip_www (str_lower demo_web_env (str ''www.4chan.org'')) = str ''4chan.org''
   \<and> is_trusted_domain demo_web_env init_web_state (str ''https://www.4chan.org/b'')
       = (False, 0, Domain_is_blocked (str ''4chan.org''))
   \<and> list_ex (\<lambda>t. contains (fst t) (str ''gab.com.wikipedia.org'')) initial_trusted_domains
   \<and> is_trusted_domain demo_web_env init_web_state (str ''https://gab.com.wikipedia.org/'')
       = (False, 0, Domain_is_blocked (str ''gab.com.wikipedia.org''))
   \<and> \<not> startswith (str_lower demo_web_env (str ''en.wikipedia.org'')) (str ''www.'')
   \<and> is_trusted_domain demo_web_env init_web_state (str ''https://en.wikipedia.org/wiki/Cat'')
       = (True, 9/10, Trusted_domain (str ''encyclopedia''))
   \<and> is_trusted_domain demo_web_env init_web_state (str ''https://example.com/'')
       = (False, 2/10, Not_in_trusted_list (str ''example.com''))"
proof -
  note a = is_trusted_domain_correct[OF demo_parse(2), of init_web_state]
  note b = is_trusted_domain_correct[OF demo_parse(3), of init_web_state]
  note c = is_trusted_domain_correct[OF demo_parse(1), of init_web_state]
  note d = is_trusted_domain_correct[OF demo_parse(5), of init_web_state]
  have w: "startswith (str_lower demo_web_env (str ''www.4chan.org'')) (str ''www.'')"
    "\<not> startswith (str_lower demo_web_env (str ''en.wikipedia.org'')) (str ''www.'')"
    by (simp_all, simp_all add: str_def)
  have t: "list_ex (\<lambda>t. contains (fst t) (str ''gab.com.wikipedia.org'')) initial_trusted_domains"
    by (simp add: initial_trusted_domains_def str_def)
  have a1: "is_trusted_domain demo_web_env init_web_state (str ''https://www.4chan.org/b'')
       = (False, 0, Domain_is_blocked (str ''4chan.org''))"
    using a demo_blocked(1) by (simp add: list_ex_iff)
  have b1: "is_trusted_domain demo_web_env init_web_state (str ''https://gab.com.wikipedia.org/'')
       = (False, 0, Domain_is_blocked (str ''gab.com.wikipedia.org''))"
    using b demo_blocked(2) by (simp add: list_ex_iff)
  have c0: "(0::nat) < length (trusted_domains init_web_state)"
    by (simp add: initial_trusted_domains_def)
  have c1: "is_trusted_domain demo_web_env init_web_state (str ''https://en.wikipedia.org/wiki/Cat'')
       = (True, 9/10, Trusted_domain (str ''encyclopedia''))"
  proof -
    have nb: "\<not> (\<exists>b \<in> set (blocked_domains init_web_state).
               contains b (strip_www (str_lower demo_web_env (str ''en.wikipedia.org''))))"
      using demo_blocked(3) by (simp add: list_ex_iff)
    from c nb have "\<forall>i < length (trusted_domains init_web_state).
        contains (fst (trusted_domains init_web_state ! i))
          (strip_www (str_lower demo_web_env (str ''en.wikipedia.org''))) \<and>
        (\<forall>j < i. \<not> contains (fst (trusted_domains init_web_state ! j))
                     (strip_www (str_lower demo_web_env (str ''en.wikipedia.org''))))
        \<longrightarrow> is_trusted_domain demo_web_env init_web_state
              (str ''https://en.wikipedia.org/wiki/Cat'')
              = (True, trust (snd (trusted_domains init_web_state ! i)),
                 Trusted_domain (domain_type (snd (trusted_domains init_web_state ! i))))"
      by blast
    from this[rule_format, of 0] c0 demo_trusted(1,2) show ?thesis by simp
  qed
  have d1: "is_trusted_domain demo_web_env init_web_state (str ''https://example.com/'')
       = (False, 2/10, Not_in_trusted_list (str ''example.com''))"
    using d demo_blocked(5) demo_trusted(3) by (simp add: list_ex_iff)
  show ?thesis
    using w t a1 b1 c1 d1 demo_parse(2) by simp
qed

text \<open>
  C4 as stated fails on a host that holds a trusted name without ending in it: matched by
  suffix the host is not in the trusted list, and the code trusts it.
\<close>

theorem trusted_name_inside_host:
  "is_trusted_domain demo_web_env init_web_state (str ''https://github.com.evil.example/x'')
     = (True, 8/10, Trusted_domain (str ''code_repository''))
   \<and> is_trusted_domain_by_suffix demo_web_env init_web_state
       (str ''https://github.com.evil.example/x'')
     = (False, 2/10, Not_in_trusted_list (str ''github.com.evil.example''))"
  using demo_blocked(4)
  by (simp add: is_trusted_domain_def is_trusted_domain_by_suffix_def demo_parse
        demo_trusted_evil)


section \<open>Content filters\<close>

lemma find_dense_None:
  "no_dense_category E t \<Longrightarrow>
   find (\<lambda>(category, keywords).
           length (filter (\<lambda>keyword. contains keyword (str_lower E t)) keywords) > 2)
     safety_filters = None"
  unfolding find_None_iff no_dense_category_def list_all_iff
  by (auto simp add: case_prod_beta not_less)

lemma apply_content_filters_rejects_short:
  "length t < 50 \<Longrightarrow> \<not> fst (apply_content_filters E t)"
  by (simp add: apply_content_filters_def Let_def split: option.splits prod.splits)

text \<open>
  C8, amended. Every text shorter than 50 characters is rejected by
  \<open>apply_content_filters\<close>; the reason is the too-short reason for every such text that
  is not whitespace-only and in which no category of unsafe keywords has more than two
  of its keywords.
\<close>

theorem short_content_rejected:
  "(length text_content < 50 \<longrightarrow> \<not> fst (apply_content_filters E text_content))
   \<and> (length text_content < 50 \<and> \<not> blank text_content \<and> no_dense_category E text_content
        \<longrightarrow> apply_content_filters E text_content = (False, Content_too_short))"
  using find_dense_None[of E text_content] apply_content_filters_rejects_short[of text_content E]
  by (simp add: apply_content_filters_def blank_def Let_def)

lemma forty_chars:
  "length (str ''A page of forty characters about cats ok'') = 40"
  "\<not> blank (str ''A page of forty characters about cats ok'')"
  "no_dense_category demo_web_env (str ''A page of forty characters about cats ok'')"
  by (simp_all add: blank_iff) (simp_all add: str_def isspace_def no_dense_category_def
       safety_filters_def ascii_lower_def)

theorem short_content_rejected_witness:
  "length (str ''A page of forty characters about cats ok'') < 50
   \<and> \<not> blank (str ''A page of forty characters about cats ok'')
   \<and> no_dense_category demo_web_env (str ''A page of forty characters about cats ok'')
   \<and> apply_content_filters demo_web_env (str ''A page of forty characters about cats ok'')
       = (False, Content_too_short)"
  using short_content_rejected[of "str ''A page of forty characters about cats ok''" demo_web_env]
    forty_chars
  by simp

text \<open>
  C8 as stated fails on a short text that holds three keywords of one category: the
  keyword check comes first, and the reason is the density of that category. A short
  text of whitespace is rejected as empty.
\<close>

theorem short_dense_content:
  "str ''nazi terrorist hate speech'' \<noteq> []
   \<and> length (str ''nazi terrorist hate speech'') < 50
   \<and> apply_content_filters demo_web_env (str ''nazi terrorist hate speech'')
       = (False, High_content_density (str ''hate_keywords''))"
  by (simp add: apply_content_filters_def strip_empty_iff safety_filters_def)
     (simp add: str_def isspace_def ascii_lower_def)

lemma short_whitespace_content:
  "str ''  '' \<noteq> [] \<and> length (str ''  '') < 50
   \<and> apply_content_filters demo_web_env (str ''  '') = (False, Filter_empty_content)"
  by (simp add: apply_content_filters_def strip_empty_iff) (simp add: str_def isspace_def)


section \<open>Fetching\<close>

lemma fetch_safe_content_success:
  assumes "fetch_safe_content E now u s = (Inr r, s')"
  shows "\<exists>chunks scheme netloc.
           http_get E u = Get_chunks chunks \<and> urlparse E u = Some (scheme, netloc) \<and>
           fst (apply_content_filters E (extract_text_from_html E (read_chunks chunks [] 0))) \<and>
           r = \<lparr>got_content = take 3000 (extract_text_from_html E (read_chunks chunks [] 0)),
                got_fetch_time = 0,
                got_content_length = length (extract_text_from_html E (read_chunks chunks [] 0)),
                got_url = u\<rparr> \<and>
           s' = s\<lparr>request_history :=
                    record_request now (Some (strip_www (str_lower E netloc))) (request_history s)\<rparr>"
  using assms
  by (auto simp add: fetch_safe_content_def Let_def
        split: option.splits prod.splits if_splits get_outcome.splits bool.splits)

lemma fetch_safe_content_failure:
  assumes "fetch_safe_content E now u s = (Inl err, s')"
  shows "s' = s"
  using assms
  by (auto simp add: fetch_safe_content_def Let_def
        split: option.splits prod.splits if_splits get_outcome.splits bool.splits)


lemma startswith_set: "startswith s p \<Longrightarrow> set p \<subseteq> set s"
  by (induction s p rule: startswith.induct) auto

lemma contains_set: "contains sub s \<Longrightarrow> set sub \<subseteq> set s"
proof (induction s)
  case Nil
  then show ?case by simp
next
  case (Cons a s)
  from Cons.prems have "startswith (a # s) sub \<or> contains sub s" by simp
  then show ?case
  proof
    assume "startswith (a # s) sub"
    then show ?thesis by (rule startswith_set)
  next
    assume "contains sub s"
    then have "set sub \<subseteq> set s" by (rule Cons.IH)
    then show ?thesis by auto
  qed
qed

lemma not_contains_replicate:
  "\<not> set sub \<subseteq> {a} \<Longrightarrow> \<not> contains sub (replicate n a)"
proof
  assume n: "\<not> set sub \<subseteq> {a}" and "contains sub (replicate n a)"
  then have "set sub \<subseteq> set (replicate n a)" by (intro contains_set)
  also have "\<dots> \<subseteq> {a}" by auto
  finally show False using n by simp
qed

lemma init_web_history [simp]:
  "request_history init_web_state = Map.empty"
  by (simp add: init_web_state_def)

lemma split_from_word:
  "\<forall>c \<in> set s. \<not> isspace c \<Longrightarrow> split_from s w = (if w @ s = [] then [] else [w @ s])"
  by (induction s arbitrary: w) auto

lemma long_page_safe:
  "apply_content_filters demo_web_env (replicate 3001 97) = (True, Content_is_safe)"
proof -
  have l: "ascii_lower (replicate 3001 97) = replicate 3001 97"
    by (simp add: ascii_lower_def)
  have b: "strip (replicate 3001 97) \<noteq> []"
    by (simp add: strip_empty_iff list_all_iff isspace_def)
  have d: "find (\<lambda>(category, keywords).
              length (filter (\<lambda>keyword. contains keyword (replicate 3001 97)) keywords) > 2)
            safety_filters = None"
    by (simp add: safety_filters_def not_contains_replicate str_def)
  have w: "split (replicate 3001 97) = [replicate 3001 97]"
    unfolding split_def by (subst split_from_word) (simp_all add: isspace_def)
  show ?thesis
    using b by (simp add: apply_content_filters_def l d w Let_def)
qed

lemma demo_fetch_long:
  "fetch_safe_content demo_web_env 100 (str ''https://en.wikipedia.org/wiki/Cat'') init_web_state
     = (Inr \<lparr>got_content = replicate 3000 97, got_fetch_time = 0, got_content_length = 3001,
             got_url = str ''https://en.wikipedia.org/wiki/Cat''\<rparr>,
        init_web_state\<lparr>request_history :=
           record_request 100 (Some (str ''en.wikipedia.org'')) Map.empty\<rparr>)"
proof -
  have r: "\<not> is_rate_limited 100 (Some (str ''en.wikipedia.org'')) Map.empty"
    by (simp add: is_rate_limited_def history_get_def global_requests_limit_def
          per_domain_requests_limit_def Let_def)
  have h: "head_check demo_web_env (http_head demo_web_env (str ''https://en.wikipedia.org/wiki/Cat''))
             = None"
    by (simp add: head_check_def demo_web_env_def) (simp add: ascii_lower_def str_def)
  have g: "http_get demo_web_env (str ''https://en.wikipedia.org/wiki/Cat'')
             = Get_chunks [replicate 3001 97]"
    by (simp add: demo_web_env_def)
  have c: "read_chunks [replicate 3001 97] [] 0 = replicate 3001 97"
    by (simp add: max_content_length_def)
  have e: "extract_text_from_html demo_web_env = (\<lambda>html. html)"
    by (simp add: demo_web_env_def)
  show ?thesis
    using r
    by (simp add: fetch_safe_content_def demo_parse(1) h g c e long_page_safe
          del: read_chunks.simps)
qed

text \<open>
  C10. Whenever \<open>fetch_safe_content\<close> succeeds, the \<open>content\<close> it returns is the
  sanitized text cut to at most 3000 characters, and \<open>content_length\<close> is the length of
  the whole sanitized text; so \<open>content_length\<close> can exceed the length of the content
  returned, and does whenever the sanitized text has more than 3000 characters.
\<close>

theorem fetch_safe_content_lengths:
  "(fetch_safe_content E now u s = (Inr r, s') \<longrightarrow>
      got_content r = take 3000 (sanitized_text E u)
      \<and> got_content_length r = length (sanitized_text E u)
      \<and> length (got_content r) \<le> 3000
      \<and> length (got_content r) \<le> got_content_length r
      \<and> (3000 < got_content_length r \<longrightarrow> length (got_content r) < got_content_length r))
   \<and> (\<exists>E now u s r s'. fetch_safe_content E now u s = (Inr r, s')
          \<and> length (got_content r) < got_content_length r)"
proof (intro conjI impI)
  assume a: "fetch_safe_content E now u s = (Inr r, s')"
  from fetch_safe_content_success[OF a] obtain chunks where
    g: "http_get E u = Get_chunks chunks" and
    r: "r = \<lparr>got_content = take 3000 (extract_text_from_html E (read_chunks chunks [] 0)),
                got_fetch_time = 0,
                got_content_length = length (extract_text_from_html E (read_chunks chunks [] 0)),
                got_url = u\<rparr>"
    by blast
  have st: "sanitized_text E u = extract_text_from_html E (read_chunks chunks [] 0)"
    by (simp add: sanitized_text_def g)
  show "got_content r = take 3000 (sanitized_text E u)" by (simp add: r st)
  show "got_content_length r = length (sanitized_text E u)" by (simp add: r st)
  show "length (got_content r) \<le> 3000" by (simp add: r)
  show "length (got_content r) \<le> got_content_length r" by (simp add: r)
  assume "3000 < got_content_length r"
  then show "length (got_content r) < got_content_length r" by (simp add: r)
next
  show "\<exists>E now u s r s'. fetch_safe_content E now u s = (Inr r, s')
          \<and> length (got_content r) < got_content_length r"
    using demo_fetch_long
    by (intro exI[of _ demo_web_env] exI[of _ 100]
          exI[of _ "str ''https://en.wikipedia.org/wiki/Cat''"] exI[of _ init_web_state]
          exI[of _ "\<lparr>got_content = replicate 3000 97, got_fetch_time = 0,
                     got_content_length = 3001,
                     got_url = str ''https://en.wikipedia.org/wiki/Cat''\<rparr>"]
          exI[of _ "init_web_state\<lparr>request_history :=
                     record_request 100 (Some (str ''en.wikipedia.org'')) Map.empty\<rparr>"])
       simp
qed

theorem fetch_safe_content_lengths_witness:
  "fetch_safe_content demo_web_env 100 (str ''https://en.wikipedia.org/wiki/Cat'') init_web_state
     = (Inr \<lparr>got_content = replicate 3000 97, got_fetch_time = 0, got_content_length = 3001,
             got_url = str ''https://en.wikipedia.org/wiki/Cat''\<rparr>,
        init_web_state\<lparr>request_history :=
           record_request 100 (Some (str ''en.wikipedia.org'')) Map.empty\<rparr>)
   \<and> take 3000 (sanitized_text demo_web_env (str ''https://en.wikipedia.org/wiki/Cat''))
       = replicate 3000 97
   \<and> length (sanitized_text demo_web_env (str ''https://en.wikipedia.org/wiki/Cat'')) = 3001
   \<and> (3000 :: nat) < 3001"
  using fetch_safe_content_lengths[of demo_web_env 100
      "str ''https://en.wikipedia.org/wiki/Cat''" init_web_state
      "\<lparr>got_content = replicate 3000 97, got_fetch_time = 0, got_content_length = 3001,
             got_url = str ''https://en.wikipedia.org/wiki/Cat''\<rparr>"
      "init_web_state\<lparr>request_history :=
           record_request 100 (Some (str ''en.wikipedia.org'')) Map.empty\<rparr>"]
    demo_fetch_long
  by simp


section \<open>The global window\<close>

lemma recent_append_now [simp]: "recent now (l @ [now]) = recent now l @ [now]"
  by (simp add: recent_def global_window_def per_domain_window_def)

lemma recent_recent [simp]: "recent now (recent now l) = recent now l"
  by (simp add: recent_def)

lemma recent_replicate_now [simp]: "recent now (replicate k now) = replicate k now"
  by (induction k) (simp_all add: recent_def global_window_def per_domain_window_def)

lemma recent_append: "recent now (a @ b) = recent now a @ recent now b"
  by (simp add: recent_def)

lemma global_after_record_request:
  assumes "d \<noteq> Some (str ''global'')"
  shows "history_get (record_request now d h) (str ''global'')
           = recent now (history_get h (str ''global'')) @ [now]"
proof -
  have "truthy d \<Longrightarrow> the d \<noteq> str ''global''"
    using assms by (cases d) (auto simp add: truthy_def)
  then show ?thesis
    by (simp add: record_request_def cleanup_request_history_def history_get_def Let_def
          recent_def global_window_def per_domain_window_def)
qed

lemma request_history_log [simp]:
  "request_history (log_web_request E query u ok len rt ts fr ctx s) = request_history s"
  by (simp add: log_web_request_def split: option.splits prod.splits)

lemma fetch_safe_content_global:
  assumes "fetch_safe_content E now u s = (Inr r, s')" and "fetch_host E u \<noteq> str ''global''"
  shows "global_history s' = recent now (global_history s) @ [now]"
proof -
  from fetch_safe_content_success[OF assms(1)] obtain scheme netloc where
    p: "urlparse E u = Some (scheme, netloc)" and
    s': "s' = s\<lparr>request_history :=
              record_request now (Some (strip_www (str_lower E netloc))) (request_history s)\<rparr>"
    by blast
  have "Some (strip_www (str_lower E netloc)) \<noteq> Some (str ''global'')"
    using assms(2) by (simp add: fetch_host_def p)
  then show ?thesis
    by (simp add: s' global_history_def global_after_record_request)
qed

lemma process_results_global:
  assumes "list_all (\<lambda>r. fetch_host E (hit_url r) \<noteq> str ''global'') hits"
    and "process_results E now query ctx hits processed s = (processed', s')"
  shows "\<exists>k. length processed' = length processed + k \<and>
             recent now (global_history s') = recent now (global_history s) @ replicate k now"
  using assms
proof (induction hits arbitrary: processed s)
  case Nil
  then show ?case by simp
next
  case (Cons r rest)
  obtain is_trusted trust_score trust_reason where
    t: "is_trusted_domain E s (hit_url r) = (is_trusted, trust_score, trust_reason)"
    by (cases "is_trusted_domain E s (hit_url r)") auto
  from Cons.prems(1) have h: "fetch_host E (hit_url r) \<noteq> str ''global''"
    and rest: "list_all (\<lambda>r. fetch_host E (hit_url r) \<noteq> str ''global'') rest"
    by simp_all
  show ?case
  proof (cases "is_trusted \<and> trust_score > 5/10")
    case False
    let ?s1 = "log_web_request E query (hit_url r) False 0 0 trust_score (Some trust_reason) ctx s"
    from Cons.prems(2) False t
    have "process_results E now query ctx rest processed ?s1 = (processed', s')"
      by auto
    from Cons.IH[OF rest this] show ?thesis
      by (simp add: global_history_def)
  next
    case True
    obtain out s1 where f: "fetch_safe_content E now (hit_url r) s = (out, s1)"
      by (cases "fetch_safe_content E now (hit_url r) s") auto
    show ?thesis
    proof (cases out)
      case (Inl err)
      then have "s1 = s" using f fetch_safe_content_failure by blast
      moreover from Cons.prems(2) True t f Inl
      have "process_results E now query ctx rest processed s1 = (processed', s')"
        by simp
      ultimately show ?thesis using Cons.IH[OF rest] by blast
    next
      case (Inr content_data)
      let ?p = "processed @
                  [\<lparr>res_title = hit_title r, res_url = hit_url r,
                    res_snippet = hit_snippet r, res_content = got_content content_data,
                    res_trust_score = trust_score, res_domain_type = trust_reason,
                    res_fetch_time = got_fetch_time content_data,
                    res_content_length = length (got_content content_data)\<rparr>]"
      let ?s2 = "log_web_request E query (hit_url r) True
                   (length (got_content content_data)) (got_fetch_time content_data)
                   trust_score None ctx s1"
      from Cons.prems(2) True t f Inr
      have "process_results E now query ctx rest ?p ?s2 = (processed', s')"
        by simp
      from Cons.IH[OF rest this] obtain k where
        k: "length processed' = length ?p + k"
           "recent now (global_history s') = recent now (global_history ?s2) @ replicate k now"
        by blast
      have g: "global_history ?s2 = recent now (global_history s) @ [now]"
        using fetch_safe_content_global[OF f[unfolded Inr] h]
        by (simp add: global_history_def)
      have "recent now (global_history s')
              = recent now (global_history s) @ replicate (Suc k) now"
        using k(2) by (simp add: g replicate_app_Cons_same)
      moreover have "length processed' = length processed + Suc k"
        using k(1) by simp
      ultimately show ?thesis by blast
    qed
  qed
qed


lemma search_web_safely_executes:
  assumes "fst (is_safe_query E query)"
    and "\<not> is_rate_limited now None (request_history s)"
    and "utf8_encodable query"
    and "cache_lookup now (cache s) (query_md5 E query) = None"
    and "simple_search_fallback E s query max_results \<noteq> []"
  shows "search_web_safely E now query max_results ctx s =
     (case process_results E now query ctx (simple_search_fallback E s query max_results) [] s of
        (processed_results, s1) \<Rightarrow>
          (Success \<lparr>found_query = query, results = processed_results,
                    total_found = length processed_results, search_time = 0,
                    found_timestamp = now\<rparr>,
           s1\<lparr>request_history := record_request now None (request_history s1),
              cache := (cache s1)(query_md5 E query \<mapsto>
                (Success \<lparr>found_query = query, results = processed_results,
                    total_found = length processed_results, search_time = 0,
                    found_timestamp = now\<rparr>, now))\<rparr>))"
proof -
  obtain reason where q: "is_safe_query E query = (True, reason)"
    using assms(1) by (cases "is_safe_query E query") auto
  show ?thesis
    using assms(2-5)
    by (simp add: search_web_safely_def q Let_def split: prod.splits)
qed

lemma search_web_safely_global:
  assumes "fst (is_safe_query E query)"
    and "\<not> is_rate_limited now None (request_history s)"
    and "utf8_encodable query"
    and "cache_lookup now (cache s) (query_md5 E query) = None"
    and "simple_search_fallback E s query max_results \<noteq> []"
    and "list_all (\<lambda>r. fetch_host E (hit_url r) \<noteq> str ''global'')
           (simple_search_fallback E s query max_results)"
  shows "\<exists>d. fst (search_web_safely E now query max_results ctx s) = Success d
            \<and> total_found d = length (results d)
            \<and> global_history (snd (search_web_safely E now query max_results ctx s))
                = recent now (global_history s) @ replicate (1 + total_found d) now"
proof -
  obtain processed s1 where
    p: "process_results E now query ctx (simple_search_fallback E s query max_results) [] s
          = (processed, s1)"
    by (cases "process_results E now query ctx
                 (simple_search_fallback E s query max_results) [] s") auto
  from process_results_global[OF assms(6) p] have
    g: "recent now (global_history s1)
          = recent now (global_history s) @ replicate (length processed) now"
    by auto
  have "history_get (record_request now None (request_history s1)) (str ''global'')
          = recent now (global_history s1) @ [now]"
    by (simp add: global_after_record_request global_history_def)
  then have "global_history (snd (search_web_safely E now query max_results ctx s))
          = recent now (global_history s) @ replicate (1 + length processed) now"
    unfolding search_web_safely_executes[OF assms(1-5)] p
    by (simp add: global_history_def g[unfolded global_history_def] replicate_app_Cons_same)
  then show ?thesis
    unfolding search_web_safely_executes[OF assms(1-5)] p by simp
qed

text \<open>
  C5, amended. A call of \<open>search_web_safely\<close> that passes the safety, rate-limit and
  cache stages and whose search finds results (none at a host that is literally the key
  \<open>"global"\<close>) appends to the global rate-limit window one timestamp for the search and
  one for every result page fetched successfully: \<open>1 + total_found\<close> timestamps, after
  the entries older than the window are dropped.
\<close>

theorem search_records_one_plus_fetched:
  assumes "fst (is_safe_query E query)"
    and "\<not> is_rate_limited now None (request_history s)"
    and "utf8_encodable query"
    and "cache_lookup now (cache s) (query_md5 E query) = None"
    and "simple_search_fallback E s query max_results \<noteq> []"
    and "list_all (\<lambda>r. fetch_host E (hit_url r) \<noteq> str ''global'')
           (simple_search_fallback E s query max_results)"
  shows "\<exists>d. fst (search_web_safely E now query max_results ctx s) = Success d
            \<and> total_found d = length (results d)
            \<and> global_history (snd (search_web_safely E now query max_results ctx s))
                = recent now (global_history s) @ replicate (1 + total_found d) now"
  using assms by (rule search_web_safely_global)


section \<open>A search at concrete inputs\<close>

lemma str_append [simp]: "str a @ str b = str (a @ b)"
  by (simp add: str_def)

lemma length_str [simp]: "length (str a) = length a"
  by (simp add: str_def)

lemma demo_query:
  "is_safe_query demo_web_env (str ''cats'') = (True, Query_is_safe)"
  "utf8_encodable (str ''cats'')"
  "replace_space 43 (str ''cats'') = str ''cats''"
  by (simp_all add: is_safe_query_def strip_empty_iff safety_filters_def suspicious_patterns_def
        demo_web_env_def utf8_encodable_def replace_space_def)
     (simp_all add: str_def isspace_def ascii_lower_def list_ex_iff)

lemma demo_page_safe:
  "apply_content_filters demo_web_env demo_page = (True, Content_is_safe)"
  by (simp add: apply_content_filters_def strip_empty_iff safety_filters_def demo_page_def
        split_def)
     (simp add: str_def isspace_def ascii_lower_def split_def Let_def)


lemma demo_trust_hits:
  "trusted_domains s = initial_trusted_domains \<Longrightarrow> blocked_domains s = initial_blocked_domains
   \<Longrightarrow> is_trusted_domain demo_web_env s (str ''https://github.com/search?q=cats'')
         = (True, 8/10, Trusted_domain (str ''code_repository''))"
  "trusted_domains s = initial_trusted_domains \<Longrightarrow> blocked_domains s = initial_blocked_domains
   \<Longrightarrow> is_trusted_domain demo_web_env s (str ''https://stackoverflow.com/search?q=cats'')
         = (True, 8/10, Trusted_domain (str ''technical_qa''))"
  using demo_blocked(6,7)
  by (simp_all add: is_trusted_domain_def demo_parse initial_trusted_domains_def)
     (simp_all add: str_def)

lemma demo_fallback:
  "simple_search_fallback demo_web_env init_web_state (str ''cats'') 2
     = [github_hit, stackoverflow_hit]"
proof -
  have w: "wikipedia_summary demo_web_env (str ''cats'') = []"
    by (simp add: demo_web_env_def)
  show ?thesis
    by (simp add: simple_search_fallback_def search_trusted_sources_def slice_to_def w
          demo_query(3) demo_trust_hits github_hit_def stackoverflow_hit_def Let_def)
qed

lemma demo_fetch_page:
  assumes "urlparse demo_web_env u = Some (scheme, netloc)" "scheme \<noteq> []" "netloc \<noteq> []"
    and "u \<noteq> str ''https://en.wikipedia.org/wiki/Cat''"
    and "\<not> is_rate_limited now (Some (strip_www (ascii_lower netloc))) (request_history s)"
  shows "fetch_safe_content demo_web_env now u s
     = (Inr \<lparr>got_content = demo_page, got_fetch_time = 0,
             got_content_length = length demo_page, got_url = u\<rparr>,
        s\<lparr>request_history :=
            record_request now (Some (strip_www (ascii_lower netloc))) (request_history s)\<rparr>)"
proof -
  have h: "head_check demo_web_env (http_head demo_web_env u) = None"
    by (simp add: head_check_def demo_web_env_def) (simp add: ascii_lower_def str_def)
  have g: "http_get demo_web_env u = Get_chunks [demo_page]"
    using assms(4) by (simp add: demo_web_env_def)
  have c: "read_chunks [demo_page] [] 0 = demo_page"
    by (simp add: max_content_length_def demo_page_def)
  have e: "extract_text_from_html demo_web_env = (\<lambda>html. html)"
    by (simp add: demo_web_env_def)
  have l: "length demo_page \<le> 3000" by (simp add: demo_page_def)
  show ?thesis
    using assms(1-3,5) l
    by (simp add: fetch_safe_content_def h g c e demo_page_safe del: read_chunks.simps)
qed


lemma log_web_request_tables [simp]:
  "trusted_domains (log_web_request E query u ok len rt ts fr ctx s) = trusted_domains s"
  "blocked_domains (log_web_request E query u ok len rt ts fr ctx s) = blocked_domains s"
  "cache (log_web_request E query u ok len rt ts fr ctx s) = cache s"
  by (simp_all add: log_web_request_def split: option.splits prod.splits)

lemma not_rate_limited:
  assumes "length (history_get h (str ''global'')) < 50" and "length (history_get h d) < 10"
  shows "\<not> is_rate_limited now (Some d) h" and "\<not> is_rate_limited now None h"
proof -
  have a: "length (filter P (history_get h (str ''global''))) < 50" for P
    using assms(1) by (meson le_less_trans length_filter_le)
  have b: "length (filter P (history_get h d)) < 10" for P
    using assms(2) by (meson le_less_trans length_filter_le)
  show "\<not> is_rate_limited now (Some d) h"
    using a b
    by (simp add: is_rate_limited_def Let_def global_requests_limit_def
          per_domain_requests_limit_def not_le)
  show "\<not> is_rate_limited now None h"
    using a
    by (simp add: is_rate_limited_def Let_def global_requests_limit_def truthy_def not_le)
qed

lemma demo_history_after_github:
  "history_get (record_request 100 (Some (str ''github.com'')) Map.empty) (str ''global'') = [100]"
  "history_get (record_request 100 (Some (str ''github.com'')) Map.empty)
     (str ''stackoverflow.com'') = []"
  by (simp_all add: record_request_def cleanup_request_history_def history_get_def truthy_def
        Let_def global_window_def per_domain_window_def)

lemma process_results_fetched:
  assumes "is_trusted_domain E s (hit_url r) = (True, ts, tr)" and "ts > 5/10"
    and "fetch_safe_content E now (hit_url r) s = (Inr cd, s1)"
  shows "process_results E now query ctx (r # rest) processed s =
           process_results E now query ctx rest
             (processed @
               [\<lparr>res_title = hit_title r, res_url = hit_url r,
                 res_snippet = hit_snippet r, res_content = got_content cd,
                 res_trust_score = ts, res_domain_type = tr,
                 res_fetch_time = got_fetch_time cd,
                 res_content_length = length (got_content cd)\<rparr>])
             (log_web_request E query (hit_url r) True (length (got_content cd))
                (got_fetch_time cd) ts None ctx s1)"
  using assms by simp

lemma length_process_results_fetched:
  assumes "is_trusted_domain E s (hit_url r) = (True, ts, tr)" and "ts > 5/10"
    and "fetch_safe_content E now (hit_url r) s = (Inr cd, s1)"
    and "\<And>processed'. length (fst (process_results E now query ctx rest processed'
            (log_web_request E query (hit_url r) True (length (got_content cd))
                (got_fetch_time cd) ts None ctx s1))) = length processed' + n"
  shows "length (fst (process_results E now query ctx (r # rest) processed s))
           = length processed + Suc n"
  unfolding process_results_fetched[OF assms(1-3)] assms(4) by simp

lemma demo_process:
  "length (fst (process_results demo_web_env 100 (str ''cats'') None
                  [github_hit, stackoverflow_hit] [] init_web_state)) = 2"
proof -
  have u: "hit_url github_hit = str ''https://github.com/search?q=cats''"
    "hit_url stackoverflow_hit = str ''https://stackoverflow.com/search?q=cats''"
    by (simp_all add: github_hit_def stackoverflow_hit_def)
  let ?cd1 = "\<lparr>got_content = demo_page, got_fetch_time = 0,
             got_content_length = length demo_page,
             got_url = str ''https://github.com/search?q=cats''\<rparr>"
  let ?s0 = "init_web_state\<lparr>request_history :=
            record_request 100 (Some (str ''github.com'')) Map.empty\<rparr>"
  have f1: "fetch_safe_content demo_web_env 100 (hit_url github_hit) init_web_state
              = (Inr ?cd1, ?s0)"
    unfolding u
    using demo_fetch_page[OF demo_parse(6), of 100 init_web_state]
      not_rate_limited(1)[of Map.empty "str ''github.com''" 100]
    by (simp add: history_get_def)
  have t1: "is_trusted_domain demo_web_env init_web_state (hit_url github_hit)
         = (True, 8/10, Trusted_domain (str ''code_repository''))"
    unfolding u by (rule demo_trust_hits) simp_all
  let ?s1 = "log_web_request demo_web_env (str ''cats'') (hit_url github_hit) True
               (length (got_content ?cd1)) (got_fetch_time ?cd1) (8/10) None None ?s0"
  have h: "request_history ?s1 = record_request 100 (Some (str ''github.com'')) Map.empty"
    by simp
  let ?cd2 = "\<lparr>got_content = demo_page, got_fetch_time = 0,
             got_content_length = length demo_page,
             got_url = str ''https://stackoverflow.com/search?q=cats''\<rparr>"
  have f2: "fetch_safe_content demo_web_env 100 (hit_url stackoverflow_hit) ?s1
     = (Inr ?cd2, ?s1\<lparr>request_history :=
            record_request 100 (Some (str ''stackoverflow.com'')) (request_history ?s1)\<rparr>)"
    unfolding u(2)
    using demo_fetch_page[OF demo_parse(7), of 100 ?s1]
      not_rate_limited(1)[of "request_history ?s1" "str ''stackoverflow.com''" 100]
    unfolding h by (simp add: demo_history_after_github)
  have t2: "is_trusted_domain demo_web_env ?s1 (hit_url stackoverflow_hit)
         = (True, 8/10, Trusted_domain (str ''technical_qa''))"
    unfolding u(2) by (rule demo_trust_hits) simp_all
  have g: "(5/10 :: real) < 8/10" by simp
  have last: "length (fst (process_results demo_web_env 100 (str ''cats'') None
                  [stackoverflow_hit] processed' ?s1)) = length processed' + 1"
    for processed'
    unfolding process_results_fetched[OF t2 g f2] by simp
  show ?thesis
    using length_process_results_fetched[OF t1 g f1, where n = 1 and processed = "[]"
        and rest = "[stackoverflow_hit]" and query = "str ''cats''" and ctx = None] last
    by simp
qed


lemma demo_search_premises:
  "fst (is_safe_query demo_web_env (str ''cats''))"
  "\<not> is_rate_limited 100 None (request_history init_web_state)"
  "utf8_encodable (str ''cats'')"
  "cache_lookup 100 (cache init_web_state) (query_md5 demo_web_env (str ''cats'')) = None"
  "simple_search_fallback demo_web_env init_web_state (str ''cats'') 2 \<noteq> []"
  "list_all (\<lambda>r. fetch_host demo_web_env (hit_url r) \<noteq> str ''global'')
     (simple_search_fallback demo_web_env init_web_state (str ''cats'') 2)"
proof -
  show "fst (is_safe_query demo_web_env (str ''cats''))" by (simp add: demo_query)
  show "\<not> is_rate_limited 100 None (request_history init_web_state)"
    using not_rate_limited(2)[of Map.empty "[]" 100] by (simp add: history_get_def)
  show "utf8_encodable (str ''cats'')" by (rule demo_query)
  show "cache_lookup 100 (cache init_web_state) (query_md5 demo_web_env (str ''cats'')) = None"
    by (simp add: cache_lookup_def init_web_state_def)
  show "simple_search_fallback demo_web_env init_web_state (str ''cats'') 2 \<noteq> []"
    by (simp add: demo_fallback)
  show "list_all (\<lambda>r. fetch_host demo_web_env (hit_url r) \<noteq> str ''global'')
     (simple_search_fallback demo_web_env init_web_state (str ''cats'') 2)"
    by (simp add: demo_fallback fetch_host_def github_hit_def stackoverflow_hit_def demo_parse)
qed

lemma demo_search_total:
  "fst (search_web_safely demo_web_env 100 (str ''cats'') 2 None init_web_state) = Success d
   \<Longrightarrow> total_found d = 2"
  unfolding search_web_safely_executes[OF demo_search_premises(1-5)] demo_fallback
  using demo_process by (auto split: prod.splits)

lemma init_global_history [simp]: "global_history init_web_state = []"
  by (simp add: global_history_def history_get_def)

theorem search_records_one_plus_fetched_witness:
  "fst (is_safe_query demo_web_env (str ''cats''))
   \<and> \<not> is_rate_limited 100 None (request_history init_web_state)
   \<and> utf8_encodable (str ''cats'')
   \<and> cache_lookup 100 (cache init_web_state) (query_md5 demo_web_env (str ''cats'')) = None
   \<and> simple_search_fallback demo_web_env init_web_state (str ''cats'') 2
       = [github_hit, stackoverflow_hit]
   \<and> fetch_host demo_web_env (hit_url github_hit) = str ''github.com''
   \<and> fetch_host demo_web_env (hit_url stackoverflow_hit) = str ''stackoverflow.com''
   \<and> global_history init_web_state = []
   \<and> global_history
         (snd (search_web_safely demo_web_env 100 (str ''cats'') 2 None init_web_state))
       = replicate (1 + 2) 100"
proof -
  from search_records_one_plus_fetched[OF demo_search_premises, of None]
  obtain d where
    d: "fst (search_web_safely demo_web_env 100 (str ''cats'') 2 None init_web_state) = Success d"
    and g: "global_history
              (snd (search_web_safely demo_web_env 100 (str ''cats'') 2 None init_web_state))
            = recent 100 (global_history init_web_state) @ replicate (1 + total_found d) 100"
    by blast
  have "global_history
          (snd (search_web_safely demo_web_env 100 (str ''cats'') 2 None init_web_state))
        = replicate (1 + 2) 100"
    unfolding g demo_search_total[OF d] by (simp add: recent_def)
  moreover have "fetch_host demo_web_env (hit_url github_hit) = str ''github.com''"
    "fetch_host demo_web_env (hit_url stackoverflow_hit) = str ''stackoverflow.com''"
    by (simp_all add: fetch_host_def github_hit_def stackoverflow_hit_def demo_parse)
  ultimately show ?thesis
    using demo_search_premises(1-4) demo_fallback by simp
qed

text \<open>
  C5 as stated fails on a search that fetches two pages: \<open>fetch_safe_content\<close> records
  each fetch through \<open>record_request(domain)\<close>, which appends to the global window too,
  so the window gains three timestamps.
\<close>

theorem search_with_two_pages:
  "global_history init_web_state = []
   \<and> global_history
         (snd (search_web_safely demo_web_env 100 (str ''cats'') 2 None init_web_state))
       = [100, 100, 100]"
proof -
  from search_web_safely_global[OF demo_search_premises, of None]
  obtain d where
    d: "fst (search_web_safely demo_web_env 100 (str ''cats'') 2 None init_web_state) = Success d"
    and g: "global_history
              (snd (search_web_safely demo_web_env 100 (str ''cats'') 2 None init_web_state))
            = recent 100 (global_history init_web_state) @ replicate (1 + total_found d) 100"
    by blast
  have "global_history
          (snd (search_web_safely demo_web_env 100 (str ''cats'') 2 None init_web_state))
        = [100, 100, 100]"
    unfolding g demo_search_total[OF d] by (simp add: recent_def numeral_3_eq_3)
  then show ?thesis by simp
qed


section \<open>Export and import of the configuration\<close>

lemma ContentLevel_of_value [simp]: "ContentLevel_of (level_value l) = Some l"
  by (cases l) (simp_all add: ContentLevel_of_def all_levels_def)

lemma ContentCategory_of_value [simp]: "ContentCategory_of (category_value c) = Some c"
  by (cases c) (simp_all add: ContentCategory_of_def all_categories_def)

lemma all_levels_complete [simp]: "l \<in> set all_levels"
  by (cases l) (simp_all add: all_levels_def)

lemma all_categories_complete [simp]: "c \<in> set all_categories"
  by (cases c) (simp_all add: all_categories_def)

lemma import_policy_exported:
  "import_policy l (map (\<lambda>c. (category_value c, P c)) cs) table
     = (True, table(l := (\<lambda>c. if c \<in> set cs then P c else table l c)))"
proof (induction cs arbitrary: table)
  case Nil
  then show ?case by simp
next
  case (Cons a cs)
  let ?t = "table(l := (table l)(a := P a))"
  have step: "import_policy l (map (\<lambda>c. (category_value c, P c)) (a # cs)) table
                = import_policy l (map (\<lambda>c. (category_value c, P c)) cs) ?t"
    by simp
  have eq: "?t(l := \<lambda>c. if c \<in> set cs then P c else ?t l c)
              = table(l := \<lambda>c. if c \<in> set (a # cs) then P c else table l c)"
    by (intro ext) auto
  show ?case
    by (simp only: step Cons.IH eq)
qed

lemma import_policies_exported:
  "import_policies (map (\<lambda>l. (level_value l, map (\<lambda>c. (category_value c, P l c)) cs)) ls) table
     = (True, \<lambda>l c. if l \<in> set ls \<and> c \<in> set cs then P l c else table l c)"
proof (induction ls arbitrary: table)
  case Nil
  then show ?case by simp
next
  case (Cons a ls)
  let ?t = "table(a := \<lambda>c. if c \<in> set cs then P a c else table a c)"
  have step: "import_policies
                (map (\<lambda>l. (level_value l, map (\<lambda>c. (category_value c, P l c)) cs)) (a # ls))
                table
              = import_policies
                  (map (\<lambda>l. (level_value l, map (\<lambda>c. (category_value c, P l c)) cs)) ls) ?t"
    by (simp add: import_policy_exported)
  have eq: "(\<lambda>l c. if l \<in> set ls \<and> c \<in> set cs then P l c else ?t l c)
        = (\<lambda>l c. if l \<in> set (a # ls) \<and> c \<in> set cs then P l c else table l c)"
    by (intro ext) auto
  show ?case
    by (simp only: step Cons.IH eq)
qed

lemma import_exported_table:
  "import_policies
     (map (\<lambda>l. (level_value l, map (\<lambda>c. (category_value c, P l c)) all_categories)) all_levels)
     table = (True, P)"
  by (simp add: import_policies_exported)



lemma verify_cpm_true:
  "fst (verify_authorization_cpm now token lvl s) \<Longrightarrow>
   verify_authorization_cpm now token lvl s = (True, s)"
  by (cases "session_tokens_cpm s token")
     (simp_all add: verify_authorization_cpm_def split: if_splits)

lemma verify_cpm_weaker:
  "fst (verify_authorization_cpm now token UNRESTRICTED s) \<Longrightarrow>
   fst (verify_authorization_cpm now token lvl s)"
proof -
  have "level_rank lvl \<le> 3" by (cases lvl) simp_all
  then show "fst (verify_authorization_cpm now token UNRESTRICTED s) \<Longrightarrow>
   fst (verify_authorization_cpm now token lvl s)"
    by (cases "session_tokens_cpm s token")
       (simp_all add: verify_authorization_cpm_def split: if_splits)
qed

lemma verify_cpm_fields [simp]:
  "current_level_cpm (snd (verify_authorization_cpm now token lvl s)) = current_level_cpm s"
  "policies_cpm (snd (verify_authorization_cpm now token lvl s)) = policies_cpm s"
  by (cases "session_tokens_cpm s token";
      simp add: verify_authorization_cpm_def)+

lemma log_policy_change_fields [simp]:
  "current_level_cpm (log_policy_change E old new token reason s) = current_level_cpm s"
  "policies_cpm (log_policy_change E old new token reason s) = policies_cpm s"
  "session_tokens_cpm (log_policy_change E old new token reason s) = session_tokens_cpm s"
  by (simp_all add: log_policy_change_def)


lemma set_policy_level_cpm_cases:
  "snd (set_policy_level_cpm E now lvl token reason s)
     = snd (verify_authorization_cpm now token lvl s)
   \<or> snd (set_policy_level_cpm E now lvl token reason s)
     = log_policy_change E (current_level_cpm s) lvl token reason
         (snd (verify_authorization_cpm now token lvl s)\<lparr>current_level_cpm := lvl\<rparr>)
   \<or> snd (set_policy_level_cpm E now lvl token reason s)
     = log_policy_change E (current_level_cpm s) lvl token reason (s\<lparr>current_level_cpm := lvl\<rparr>)"
proof (cases "lvl \<in> set [RESEARCH, UNRESTRICTED]")
  case False
  then show ?thesis by (simp add: set_policy_level_cpm_def Let_def)
next
  case True
  obtain b s' where v: "verify_authorization_cpm now token lvl s = (b, s')"
    by (cases "verify_authorization_cpm now token lvl s") auto
  show ?thesis
    using True by (cases b) (simp_all add: set_policy_level_cpm_def Let_def v)
qed

lemma set_policy_level_cpm_policies [simp]:
  "policies_cpm (snd (set_policy_level_cpm E now lvl token reason s)) = policies_cpm s"
  using set_policy_level_cpm_cases[of E now lvl token reason s]
  by (elim disjE) simp_all

lemma set_policy_level_cpm_same [simp]:
  "current_level_cpm (snd (set_policy_level_cpm E now (current_level_cpm s) token reason s))
     = current_level_cpm s"
  using set_policy_level_cpm_cases[of E now "current_level_cpm s" token reason s]
  by (elim disjE) simp_all


lemma export_fields:
  "cfg_current_level (export_policy_config E now s) = Some (level_value (current_level_cpm s))"
  "cfg_policies (export_policy_config E now s)
     = Some (map (\<lambda>l. (level_value l,
                         map (\<lambda>c. (category_value c, policies_cpm s l c)) all_categories))
                all_levels)"
  by (simp_all add: export_policy_config_def)

lemma verify_after:
  assumes "verify_authorization_cpm now token lvl s = (b, s')"
  shows "current_level_cpm s' = current_level_cpm s" and "policies_cpm s' = policies_cpm s"
proof -
  have "s' = snd (verify_authorization_cpm now token lvl s)" by (simp add: assms)
  then show "current_level_cpm s' = current_level_cpm s" and "policies_cpm s' = policies_cpm s"
    by (simp_all only: verify_cpm_fields)
qed

lemma import_exported_step:
  assumes "verify_authorization_cpm now1 token RESEARCH s' = (True, s')"
    and "verify_authorization_cpm now3 token UNRESTRICTED
           (snd (set_policy_level_cpm E now2 (current_level_cpm s) token
                   (Some (str ''Config import'')) s')) = (b3, s3)"
  shows "import_policy_config E now1 now2 now3 (export_policy_config E now s) token s'
             = (if b3 then (True, s3\<lparr>policies_cpm := policies_cpm s\<rparr>) else (True, s3))"
proof -
  have t: "import_policies
     (map (\<lambda>l. (level_value l, map (\<lambda>c. (category_value c, policies_cpm s l c)) all_categories))
        all_levels) (policies_cpm s3) = (True, policies_cpm s)"
    by (rule import_exported_table)
  show ?thesis
  proof (cases b3)
    case True
    show ?thesis
      unfolding import_policy_config_def
      by (simp only: assms(1) export_fields ContentLevel_of_value assms(2)[unfolded True] t True
            prod.case bool.case option.case if_True)
  next
    case False
    show ?thesis
      unfolding import_policy_config_def
      by (simp only: assms(1) export_fields ContentLevel_of_value assms(2)[unfolded False] False
            prod.case bool.case option.case if_False)
  qed
qed

lemma verify_cpm_live:
  assumes "fst (verify_authorization_cpm now3 token UNRESTRICTED s)"
    and "now \<le> now3" and "session_tokens_cpm x = session_tokens_cpm s"
  shows "verify_authorization_cpm now token lvl x = (True, x)"
proof -
  have r: "level_rank lvl \<le> 3" by (cases lvl) simp_all
  show ?thesis
    using assms r
    by (cases "session_tokens_cpm s token")
       (simp_all add: verify_authorization_cpm_def split: if_splits)
qed

lemma set_policy_level_cpm_live:
  assumes "fst (verify_authorization_cpm now3 token UNRESTRICTED s)" and "now \<le> now3"
  shows "set_policy_level_cpm E now lvl token reason s
           = (True, log_policy_change E (current_level_cpm s) lvl token reason
                      (s\<lparr>current_level_cpm := lvl\<rparr>))"
  by (simp add: set_policy_level_cpm_def Let_def verify_cpm_live[OF assms refl])

text \<open>
  C7. On every engine, \<open>import_policy_config\<close> applied to what \<open>export_policy_config\<close>
  has just returned, with a token that verifies at Unrestricted level when the import
  starts, returns \<open>True\<close> and leaves the threshold table and the active level as they
  were at the export, whatever the later clock readings of the import are.
\<close>

theorem export_import_round_trip:
  assumes "fst (verify_authorization_cpm now1 token UNRESTRICTED s)"
  shows "fst (import_policy_config E now1 now2 now3 (export_policy_config E now s) token s)
       \<and> policies_cpm
           (snd (import_policy_config E now1 now2 now3 (export_policy_config E now s) token s))
         = policies_cpm s
       \<and> current_level_cpm
           (snd (import_policy_config E now1 now2 now3 (export_policy_config E now s) token s))
         = current_level_cpm s"
proof -
  have v1: "verify_authorization_cpm now1 token RESEARCH s = (True, s)"
    by (rule verify_cpm_true) (rule verify_cpm_weaker[OF assms])
  obtain b3 s3 where v3:
    "verify_authorization_cpm now3 token UNRESTRICTED
       (snd (set_policy_level_cpm E now2 (current_level_cpm s) token
               (Some (str ''Config import'')) s)) = (b3, s3)"
    by (cases "verify_authorization_cpm now3 token UNRESTRICTED
       (snd (set_policy_level_cpm E now2 (current_level_cpm s) token
               (Some (str ''Config import'')) s))") blast
  have l3: "current_level_cpm s3 = current_level_cpm s"
    using verify_after(1)[OF v3] by (simp only: set_policy_level_cpm_same)
  have p3: "policies_cpm s3 = policies_cpm s"
    using verify_after(2)[OF v3] by (simp only: set_policy_level_cpm_policies)
  show ?thesis
    unfolding import_exported_step[OF v1 v3]
    by (cases b3) (simp_all add: l3 p3)
qed

text \<open>
  The import is not idle: into any other engine whose token stays valid through the
  import, it carries the table and the level of the engine that exported.
\<close>

lemma import_into_other_engine:
  assumes "fst (verify_authorization_cpm now3 token UNRESTRICTED s')"
    and "now1 \<le> now3" and "now2 \<le> now3"
  shows "fst (import_policy_config E now1 now2 now3 (export_policy_config E now s) token s')
       \<and> policies_cpm
           (snd (import_policy_config E now1 now2 now3 (export_policy_config E now s) token s'))
         = policies_cpm s
       \<and> current_level_cpm
           (snd (import_policy_config E now1 now2 now3 (export_policy_config E now s) token s'))
         = current_level_cpm s"
proof -
  let ?s2 = "log_policy_change E (current_level_cpm s') (current_level_cpm s) token
               (Some (str ''Config import'')) (s'\<lparr>current_level_cpm := current_level_cpm s\<rparr>)"
  have v1: "verify_authorization_cpm now1 token RESEARCH s' = (True, s')"
    by (rule verify_cpm_live[OF assms(1,2) refl])
  have s2: "snd (set_policy_level_cpm E now2 (current_level_cpm s) token
               (Some (str ''Config import'')) s') = ?s2"
    by (simp only: set_policy_level_cpm_live[OF assms(1,3)] snd_conv)
  have tok: "session_tokens_cpm ?s2 = session_tokens_cpm s'"
    by simp
  have v3: "verify_authorization_cpm now3 token UNRESTRICTED
       (snd (set_policy_level_cpm E now2 (current_level_cpm s) token
               (Some (str ''Config import'')) s')) = (True, ?s2)"
    unfolding s2 by (rule verify_cpm_live[OF assms(1) order_refl tok])
  show ?thesis
    unfolding import_exported_step[OF v1 v3]
    by simp
qed

lemma demo_generated_cpm_eq:
  "demo_generated_cpm =
     Some (replicate 32 48,
       init_engine_cpm\<lparr>session_tokens_cpm :=
         [replicate 32 48 \<mapsto>
            \<lparr>user_id_cpm = str ''admin'', level_cpm = UNRESTRICTED,
             expiry_cpm = 3600000000\<rparr>]\<rparr>)"
proof -
  have h: "take 32 (hexdigest 64 0) = replicate 32 48"
    by (simp add: hexdigest_def hex_digit_def take_map list_eq_iff_nth_eq)
  have e: "utf8_encodable (str ''admin:unrestricted:1970-01-01T00:00:00'')"
    by (simp add: utf8_encodable_def str_def)
  have a: "add_hours 0 1 = Some 3600000000"
    by (simp add: add_hours_def datetime_min_def datetime_max_def)
  show ?thesis
    by (simp add: demo_generated_cpm_def generate_auth_token_cpm_def demo_env_def h e a
          init_engine_cpm_def Let_def)
qed

lemma demo_engine_cpm_fields:
  "demo_token_cpm = replicate 32 48"
  "session_tokens_cpm demo_engine_cpm demo_token_cpm =
     Some \<lparr>user_id_cpm = str ''admin'', level_cpm = UNRESTRICTED, expiry_cpm = 3600000000\<rparr>"
  "current_level_cpm demo_engine_cpm = SAFE"
  "policies_cpm demo_engine_cpm = initial_policies_cpm"
  by (simp_all add: demo_token_cpm_def demo_engine_cpm_def demo_generated_cpm_eq
        init_engine_cpm_def)

lemma demo_verify_cpm:
  "fst (verify_authorization_cpm 7 demo_token_cpm UNRESTRICTED demo_engine_cpm)"
  by (simp add: verify_authorization_cpm_def demo_engine_cpm_fields(2))
     (simp add: demo_engine_cpm_fields(1))

lemma research_engine_cpm_fields:
  "current_level_cpm research_engine_cpm = RESEARCH"
  "policies_cpm research_engine_cpm = initial_policies_cpm"
  "session_tokens_cpm research_engine_cpm = session_tokens_cpm demo_engine_cpm"
  unfolding research_engine_cpm_def
    set_policy_level_cpm_live[OF demo_verify_cpm, of 1, simplified] snd_conv
  by (simp_all add: demo_engine_cpm_fields)

lemma research_verify_cpm:
  "fst (verify_authorization_cpm 5 demo_token_cpm UNRESTRICTED research_engine_cpm)"
  using verify_cpm_live[OF demo_verify_cpm, of 5 research_engine_cpm UNRESTRICTED]
  by (simp add: research_engine_cpm_fields)

theorem export_import_round_trip_witness:
  "fst (verify_authorization_cpm 5 demo_token_cpm UNRESTRICTED research_engine_cpm)
   \<and> fst (import_policy_config demo_env 5 6 7
            (export_policy_config demo_env 4 research_engine_cpm) demo_token_cpm
            research_engine_cpm)
   \<and> policies_cpm
       (snd (import_policy_config demo_env 5 6 7
               (export_policy_config demo_env 4 research_engine_cpm) demo_token_cpm
               research_engine_cpm))
     = initial_policies_cpm
   \<and> current_level_cpm
       (snd (import_policy_config demo_env 5 6 7
               (export_policy_config demo_env 4 research_engine_cpm) demo_token_cpm
               research_engine_cpm))
     = RESEARCH"
  using export_import_round_trip[OF research_verify_cpm, of demo_env 6 7 4]
  by (simp only: research_engine_cpm_fields research_verify_cpm simp_thms)

end
